theory Spec2Isabelle
  imports Main "HOL-Library.Sublist"
begin

section \<open>Data model of the kwebui controller\<close>

text \<open>
  The controller of \<^verbatim>\<open>pkg/controller/kwebui/kwebui_controller.go\<close> reconciles one
  \<^verbatim>\<open>KWebUI\<close> resource against the \<^verbatim>\<open>console\<close> Deployment of the same namespace.
  Go strings are byte sequences and are modelled as \<^typ>\<open>string\<close>.  The records below
  carry the fields the controller reads or writes.
\<close>

record NamespacedName =
  Namespace :: string
  Name :: string

text \<open>
  Modelled from the spec: the declaration of the resource type \<^verbatim>\<open>KWebUI\<close> (package
  \<^verbatim>\<open>v1alpha1\<close>) is not among the sources.  These are DesiredSpec and StatusRecord of
  the specification's data model, under the field names the controller uses.
\<close>

record KWebUISpec =
  Version :: string
  RegistryUrl :: string
  RegistryNamespace :: string
  OpenshiftMasterDefaultSubdomain :: string
  PublicMasterHostname :: string

record KWebUIStatus =
  Phase :: string
  Message :: string

record KWebUI =
  Spec :: KWebUISpec
  Status :: KWebUIStatus

text \<open>
  The Kubernetes types, cut down to what the controller reads; \<open>ContainerName\<close> is the
  field \<^verbatim>\<open>Name\<close> of a container.
\<close>

record Container =
  ContainerName :: string
  Image :: string

record OwnerReference =
  OwnerName :: string
  IsController :: bool

text \<open>\<^verbatim>\<open>Containers\<close> stands for \<^verbatim>\<open>deployment.Spec.Template.Spec.Containers\<close>.\<close>

record Deployment =
  Containers :: "Container list"
  OwnerReferences :: "OwnerReference list"

text \<open>\<^verbatim>\<open>rest.Config\<close>: host, \<^verbatim>\<open>TLSClientConfig.CAFile\<close> and bearer token.\<close>

record Config =
  Host :: string
  CAFile :: string
  BearerToken :: string

text \<open>\<^verbatim>\<open>reconcile.Result\<close>; the controller only ever returns the empty value.\<close>

record Result =
  Requeue :: bool
  RequeueAfter :: nat

definition emptyResult :: Result where
  "emptyResult = \<lparr>Requeue = False, RequeueAfter = 0\<rparr>"

text \<open>
  Go errors as values.  \<open>NotFound\<close> is the API error recognised by
  \<^verbatim>\<open>errors.IsNotFound\<close>; \<open>ErrorString\<close> is \<^verbatim>\<open>stderrors.New\<close>.
\<close>

datatype error =
    NotFound
  | ApiError string
  | ErrorString string
  | ConfigError string
  | ExecError string
  | PathError string

definition IsNotFound :: "error \<Rightarrow> bool" where
  "IsNotFound err = (err = NotFound)"

subsection \<open>Constants\<close>

definition InventoryFilePattern :: "string \<Rightarrow> string" where
  "InventoryFilePattern s = ''/tmp/inventory_'' @ s @ ''.ini''"

definition ConfigFilePattern :: "string \<Rightarrow> string" where
  "ConfigFilePattern s = ''/tmp/config_'' @ s"

definition PlaybookFile :: string where
  "PlaybookFile = ''/kubevirt-web-ui-ansible/playbooks/kubevirt-web-ui/config.yml''"

definition WebUIContainerName :: string where
  "WebUIContainerName = ''console''"

definition PhaseFreshProvision :: string where
  "PhaseFreshProvision = ''PROVISION_STARTED''"

definition PhaseProvisioned :: string where
  "PhaseProvisioned = ''PROVISIONED''"

definition PhaseProvisionFailed :: string where
  "PhaseProvisionFailed = ''PROVISION_FAILED''"

definition PhaseDeprovision :: string where
  "PhaseDeprovision = ''DEPROVISION_STARTED''"

definition PhaseDeprovisioned :: string where
  "PhaseDeprovisioned = ''DEPROVISIONED''"

definition PhaseDeprovisionFailed :: string where
  "PhaseDeprovisionFailed = ''DEPROVISION_FAILED''"

definition PhaseOtherError :: string where
  "PhaseOtherError = ''OTHER_ERROR''"

definition PhaseNoDeployment :: string where
  "PhaseNoDeployment = ''NOT_DEPLOYED''"

definition PhaseOwnerReferenceFailed :: string where
  "PhaseOwnerReferenceFailed = ''OWNER_REFERENCE_FAILED''"

section \<open>String helpers\<close>

text \<open>\<^verbatim>\<open>def\<close>: the value, or the default when the value is empty.\<close>

definition def :: "string \<Rightarrow> string \<Rightarrow> string" where
  "def s defVal = (if s = [] then defVal else s)"

text \<open>
  \<^verbatim>\<open>strings.LastIndex\<close>: the byte index of the last occurrence of \<open>sep\<close> in \<open>s\<close>,
  or \<open>-1\<close>.  The candidates are tried from the right.
\<close>

definition LastIndex :: "string \<Rightarrow> string \<Rightarrow> int" where
  "LastIndex s sep =
     (if length sep > length s then -1
      else (case filter (\<lambda>i. take (length sep) (drop i s) = sep)
                        (rev [0 ..< Suc (length s - length sep)]) of
              [] \<Rightarrow> -1
            | i # _ \<Rightarrow> int i))"

definition afterLast :: "string \<Rightarrow> string \<Rightarrow> string" where
  "afterLast value a =
     (let pos = LastIndex value a in
      if pos = -1 then []
      else (let adjustedPos = pos + int (length a) in
            if adjustedPos \<ge> int (length value) then []
            else drop (nat adjustedPos) value))"

text \<open>\<^verbatim>\<open>strings.TrimPrefix\<close> and \<^verbatim>\<open>strings.Join\<close>.\<close>

definition TrimPrefix :: "string \<Rightarrow> string \<Rightarrow> string" where
  "TrimPrefix s p = (if prefix p s then drop (length p) s else s)"

fun Join :: "string list \<Rightarrow> string \<Rightarrow> string" where
  "Join [] sep = []"
| "Join [x] sep = x"
| "Join (x # y # ys) sep = x @ sep @ Join (y # ys) sep"

text \<open>
  \<^verbatim>\<open>strings.Split(out, "\n")\<close>, as \<^verbatim>\<open>logPerLine\<close> uses it: the text between line
  breaks, with a last element for whatever follows the final line break.
\<close>

fun SplitLines :: "string \<Rightarrow> string list" where
  "SplitLines [] = [[]]"
| "SplitLines (c # cs) =
     (if c = CHR ''\<newline>'' then [] # SplitLines cs
      else (case SplitLines cs of
              [] \<Rightarrow> [[c]]
            | l # ls \<Rightarrow> (c # l) # ls))"

text \<open>\<^verbatim>\<open>fmt.Sprintf("%X", b)\<close> on a byte slice: two upper-case hex digits per byte.\<close>

definition hexDigit :: "nat \<Rightarrow> char" where
  "hexDigit n = ''0123456789ABCDEF'' ! (n mod 16)"

definition hexBytes :: "string \<Rightarrow> string" where
  "hexBytes b = concat (map (\<lambda>c. [hexDigit ((of_char c :: nat) div 16), hexDigit (of_char c)]) b)"

section \<open>The world the controller acts on\<close>

text \<open>
  Everything outside the controller is explicit state: the API server's stores of both
  resource kinds, the files under \<^verbatim>\<open>/tmp\<close>, and a record of the calls the
  controller has made, in order.  Logging and the two goroutines that copy a child
  process's output into the log are left out.
\<close>

datatype event =
    EvUpdateStatus NamespacedName string string
  | EvExec string "string list" "string list"
  | EvCreate string
  | EvRemove string

datatype callKind =
    GetKWebUI | GetDeployment | Update | InClusterConfig | RandRead
  | Process | Create | Write | Remove

record world =
  kwebuis :: "NamespacedName \<rightharpoonup> KWebUI"
  deployments :: "NamespacedName \<rightharpoonup> Deployment"
  files :: "string \<rightharpoonup> string"
  events :: "event list"
  calls :: "callKind \<Rightarrow> nat"

text \<open>
  What a child process leaves behind: it can fail to start, run and exit non-zero, or run
  and exit zero; a process that ran may have changed the Deployments and the files.
\<close>

datatype procOutcome =
    StartFailed error
  | WaitFailed error "NamespacedName \<rightharpoonup> Deployment" "string \<rightharpoonup> string"
  | Exited "NamespacedName \<rightharpoonup> Deployment" "string \<rightharpoonup> string"

text \<open>
  The environment decides every outcome the controller does not control.  Each oracle is
  indexed by the number of earlier calls of its kind, so that every call can succeed or
  fail independently of the others.  \<open>randRead\<close> gives the bytes the random source
  delivers, \<open>written\<close> the number of bytes a failing write has put into the file
  before it failed.  \<open>setControllerReference\<close> is
  \<^verbatim>\<open>controllerutil.SetControllerReference\<close>, library code taken as a parameter.
\<close>

record env =
  fault :: "callKind \<Rightarrow> nat \<Rightarrow> error option"
  inClusterConfig :: "nat \<Rightarrow> error + Config"
  randRead :: "nat \<Rightarrow> string option"
  written :: "nat \<Rightarrow> nat"
  environ :: "string list"
  process :: "nat \<Rightarrow> string \<Rightarrow> string list \<Rightarrow> string list
                \<Rightarrow> (NamespacedName \<rightharpoonup> Deployment) \<Rightarrow> (string \<rightharpoonup> string) \<Rightarrow> procOutcome"
  setControllerReference :: "KWebUI \<Rightarrow> Deployment \<Rightarrow> error option \<times> Deployment"

definition tick :: "callKind \<Rightarrow> world \<Rightarrow> world" where
  "tick k w = w\<lparr>calls := (calls w)(k := Suc (calls w k))\<rparr>"

definition record_event :: "event \<Rightarrow> world \<Rightarrow> world" where
  "record_event ev w = w\<lparr>events := events w @ [ev]\<rparr>"

subsection \<open>The API client\<close>

definition clientGetKWebUI :: "env \<Rightarrow> world \<Rightarrow> NamespacedName \<Rightarrow> (error + KWebUI) \<times> world" where
  "clientGetKWebUI e w name =
     (case fault e GetKWebUI (calls w GetKWebUI) of
        Some err \<Rightarrow> (Inl err, tick GetKWebUI w)
      | None \<Rightarrow>
          (case kwebuis w name of
             None \<Rightarrow> (Inl NotFound, tick GetKWebUI w)
           | Some obj \<Rightarrow> (Inr obj, tick GetKWebUI w)))"

definition clientGetDeployment :: "env \<Rightarrow> world \<Rightarrow> NamespacedName \<Rightarrow> (error + Deployment) \<times> world" where
  "clientGetDeployment e w name =
     (case fault e GetDeployment (calls w GetDeployment) of
        Some err \<Rightarrow> (Inl err, tick GetDeployment w)
      | None \<Rightarrow>
          (case deployments w name of
             None \<Rightarrow> (Inl NotFound, tick GetDeployment w)
           | Some obj \<Rightarrow> (Inr obj, tick GetDeployment w)))"

definition clientUpdate :: "env \<Rightarrow> world \<Rightarrow> NamespacedName \<Rightarrow> KWebUI \<Rightarrow> error option \<times> world" where
  "clientUpdate e w name obj =
     (case fault e Update (calls w Update) of
        Some err \<Rightarrow> (Some err, tick Update w)
      | None \<Rightarrow>
          (case kwebuis w name of
             None \<Rightarrow> (Some NotFound, tick Update w)
           | Some old \<Rightarrow> (None, tick Update (w\<lparr>kwebuis := (kwebuis w)(name \<mapsto> obj)\<rparr>))))"

section \<open>The controller\<close>

text \<open>
  \<^verbatim>\<open>updateStatus\<close> has no result in the source: both of its failures end in a log line.
\<close>

definition updateStatus :: "env \<Rightarrow> world \<Rightarrow> NamespacedName \<Rightarrow> string \<Rightarrow> string \<Rightarrow> world" where
  "updateStatus e w request phase msg =
     (case clientGetKWebUI e (record_event (EvUpdateStatus request phase msg) w) request of
        (Inl err, w1) \<Rightarrow> w1
      | (Inr instance, w1) \<Rightarrow>
          snd (clientUpdate e w1 request
                 (instance\<lparr>Status := (Status instance)\<lparr>Phase := phase, Message := msg\<rparr>\<rparr>)))"

text \<open>
  \<^verbatim>\<open>unique\<close>: five random bytes in hex, or the literal \<^verbatim>\<open>abcde\<close> when the random
  source fails.  \<^verbatim>\<open>rand.Read\<close> fills the whole buffer or returns an error, so a
  read that delivers fewer than five bytes is a failed read.
\<close>

definition unique :: "env \<Rightarrow> world \<Rightarrow> string \<times> world" where
  "unique e w =
     (case randRead e (calls w RandRead) of
        None \<Rightarrow> (''abcde'', tick RandRead w)
      | Some bs \<Rightarrow>
          (if length bs < 5 then (''abcde'', tick RandRead w)
           else (hexBytes (take 5 bs), tick RandRead w)))"

definition removeFile :: "env \<Rightarrow> world \<Rightarrow> string \<Rightarrow> world" where
  "removeFile e w name =
     (let w1 = tick Remove (record_event (EvRemove name) w) in
      case fault e Remove (calls w Remove) of
        Some err \<Rightarrow> w1
      | None \<Rightarrow>
          (case files w name of
             None \<Rightarrow> w1
           | Some c \<Rightarrow> w1\<lparr>files := (files w)(name := None)\<rparr>))"

text \<open>
  \<^verbatim>\<open>os.Create\<close> and \<^verbatim>\<open>f.WriteString\<close>.  A failing write can be short: it leaves
  the first \<open>written\<close> bytes of its string in the file and returns the error.
\<close>

definition osCreate :: "env \<Rightarrow> world \<Rightarrow> string \<Rightarrow> error option \<times> world" where
  "osCreate e w name =
     (let w1 = tick Create (record_event (EvCreate name) w) in
      case fault e Create (calls w Create) of
        Some err \<Rightarrow> (Some err, w1)
      | None \<Rightarrow> (None, w1\<lparr>files := (files w)(name \<mapsto> [])\<rparr>))"

definition WriteString :: "env \<Rightarrow> world \<Rightarrow> string \<Rightarrow> string \<Rightarrow> error option \<times> world" where
  "WriteString e w name s =
     (case fault e Write (calls w Write) of
        Some err \<Rightarrow>
          (case files w name of
             None \<Rightarrow> (Some err, tick Write w)
           | Some c \<Rightarrow>
               (Some err,
                tick Write (w\<lparr>files := (files w)(name \<mapsto>
                                       c @ take (written e (calls w Write)) s)\<rparr>)))
      | None \<Rightarrow>
          (case files w name of
             None \<Rightarrow> (Some (PathError ''file already closed''), tick Write w)
           | Some c \<Rightarrow> (None, tick Write (w\<lparr>files := (files w)(name \<mapsto> c @ s)\<rparr>))))"

text \<open>The writes whose result the source drops, one after the other.\<close>

fun WriteStrings :: "env \<Rightarrow> world \<Rightarrow> string \<Rightarrow> string list \<Rightarrow> world" where
  "WriteStrings e w name [] = w"
| "WriteStrings e w name (s # ss) = WriteStrings e (snd (WriteString e w name s)) name ss"

definition runCommand :: "env \<Rightarrow> world \<Rightarrow> string \<Rightarrow> string list \<Rightarrow> string list \<Rightarrow> string list
                            \<Rightarrow> error option \<times> world" where
  "runCommand e w cmd args envv anonymArgs =
     (let w1 = tick Process (record_event (EvExec cmd args envv) w) in
      case process e (calls w Process) cmd args (environ e @ envv) (deployments w) (files w) of
        StartFailed err \<Rightarrow> (Some err, w1)
      | WaitFailed err d f \<Rightarrow> (Some err, w1\<lparr>deployments := d, files := f\<rparr>)
      | Exited d f \<Rightarrow> (None, w1\<lparr>deployments := d, files := f\<rparr>))"

definition runPlaybook :: "env \<Rightarrow> world \<Rightarrow> string \<Rightarrow> string \<Rightarrow> error option \<times> world" where
  "runPlaybook e w inventoryFile configFile =
     (let args = [''-i'', inventoryFile, PlaybookFile, ''-vvv''];
          envv = [''KUBECONFIG='' @ configFile]
      in runCommand e w ''ansible-playbook'' args envv args)"

definition loginClient :: "env \<Rightarrow> world \<Rightarrow> string \<Rightarrow> (error + string) \<times> world" where
  "loginClient e w namespace =
     (case inClusterConfig e (calls w InClusterConfig) of
        Inl err \<Rightarrow> (Inl err, tick InClusterConfig w)
      | Inr config \<Rightarrow>
          (case unique e (tick InClusterConfig w) of
             (u, w1) \<Rightarrow>
               (let configFile = ConfigFilePattern u;
                    envv = [''KUBECONFIG='' @ configFile];
                    args = [''login'', Host config,
                            ''--certificate-authority='' @ CAFile config,
                            ''--token='' @ BearerToken config]
                in case runCommand e w1 ''oc'' args envv args of
                     (Some err, w2) \<Rightarrow> (Inl err, w2)
                   | (None, w2) \<Rightarrow>
                       (case runCommand e w2 ''oc'' [''project'', namespace] envv
                               [''project'', namespace] of
                          (Some err, w3) \<Rightarrow> (Inl err, w3)
                        | (None, w3) \<Rightarrow> (Inr configFile, w3)))))"

text \<open>
  The strings \<^verbatim>\<open>generateInventory\<close> writes before its last, checked write, in order.
\<close>

definition inventoryWrites :: "KWebUI \<Rightarrow> string \<Rightarrow> string \<Rightarrow> string list" where
  "inventoryWrites instance namespace action =
     [''[OSEv3:children]\<newline>masters\<newline>\<newline>'',
      ''[OSEv3:vars]\<newline>'',
      ''platform=openshift\<newline>'',
      Join [''apb_action='', action, ''\<newline>''] [],
      Join [''registry_url='', def (RegistryUrl (Spec instance)) ''quay.io'', ''\<newline>''] [],
      Join [''registry_namespace='', def (RegistryNamespace (Spec instance)) ''kubevirt'',
            ''\<newline>''] [],
      Join [''docker_tag='', def (Version (Spec instance)) ''v1.4'', ''\<newline>''] [],
      Join [''kubevirt_web_ui_namespace='', def namespace ''kubevirt-web-ui'', ''\<newline>''] []]
     @ (if action = ''deprovision'' then [''preserve_namespace=true\<newline>''] else [])
     @ (if OpenshiftMasterDefaultSubdomain (Spec instance) \<noteq> []
        then [''openshift_master_default_subdomain=''
                @ OpenshiftMasterDefaultSubdomain (Spec instance) @ ''\<newline>'']
        else [])
     @ (if PublicMasterHostname (Spec instance) \<noteq> []
        then [''public_master_hostname='' @ PublicMasterHostname (Spec instance) @ ''\<newline>'']
        else [])
     @ [''\<newline>'', ''[masters]\<newline>'']"

definition inventoryLastWrite :: string where
  "inventoryLastWrite = ''127.0.0.1 ansible_connection=local\<newline>''"

definition generateInventory :: "env \<Rightarrow> world \<Rightarrow> KWebUI \<Rightarrow> string \<Rightarrow> string
                                   \<Rightarrow> (error + string) \<times> world" where
  "generateInventory e w instance namespace action =
     (case unique e w of
        (u, w0) \<Rightarrow>
          (let inventoryFile = InventoryFilePattern u in
           case osCreate e w0 inventoryFile of
             (Some err, w1) \<Rightarrow> (Inl err, w1)
           | (None, w1) \<Rightarrow>
               (case WriteString e
                       (WriteStrings e w1 inventoryFile (inventoryWrites instance namespace action))
                       inventoryFile inventoryLastWrite of
                  (Some err, w2) \<Rightarrow> (Inl err, w2)
                | (None, w2) \<Rightarrow> (Inr inventoryFile, w2))))"

text \<open>
  The deferred removals run when the function returns, the later one first; a return
  before a \<^verbatim>\<open>defer\<close> statement runs nothing for it.
\<close>

definition runPlaybookWithSetup :: "env \<Rightarrow> world \<Rightarrow> string \<Rightarrow> KWebUI \<Rightarrow> string
                                      \<Rightarrow> (Result \<times> error option) \<times> world" where
  "runPlaybookWithSetup e w namespace instance action =
     (case loginClient e w namespace of
        (Inl err, w1) \<Rightarrow> ((emptyResult, Some err), w1)
      | (Inr configFile, w1) \<Rightarrow>
          (case generateInventory e w1 instance namespace action of
             (Inl err, w2) \<Rightarrow> ((emptyResult, Some err), removeFile e w2 configFile)
           | (Inr inventoryFile, w2) \<Rightarrow>
               (case runPlaybook e w2 inventoryFile configFile of
                  (err, w3) \<Rightarrow>
                    ((emptyResult, err),
                     removeFile e (removeFile e w3 inventoryFile) configFile))))"

text \<open>
  \<^verbatim>\<open>setOwnerReference\<close>.  The result of \<^verbatim>\<open>SetControllerReference\<close> is not
  assigned, so the second test reads the \<^verbatim>\<open>err\<close> of the fetch, which is nil there.
\<close>

definition setOwnerReference :: "env \<Rightarrow> world \<Rightarrow> NamespacedName \<Rightarrow> KWebUI \<Rightarrow> error option \<times> world" where
  "setOwnerReference e w request instance =
     (case clientGetDeployment e w \<lparr>Namespace = Namespace request, Name = ''console''\<rparr> of
        (Inl err, w1) \<Rightarrow>
          (Some err,
           updateStatus e w1 request PhaseOwnerReferenceFailed
             ''Failed to retrieve the just created kubevirt-web-ui Deployment object to set owner reference.'')
      | (Inr deployment, w1) \<Rightarrow>
          (case setControllerReference e instance deployment of
             (discarded, deployment') \<Rightarrow>
               (let err = (None :: error option) in
                if err \<noteq> None
                then (err,
                      updateStatus e w1 request PhaseOwnerReferenceFailed
                        ''Failed to set Operator CR as the owner of the kubevirt-web-ui Deployment object.'')
                else (None, w1))))"

definition freshProvision :: "env \<Rightarrow> world \<Rightarrow> NamespacedName \<Rightarrow> KWebUI
                                \<Rightarrow> (Result \<times> error option) \<times> world" where
  "freshProvision e w request instance =
     (if Version (Spec instance) = []
      then ((emptyResult, None), updateStatus e w request PhaseNoDeployment [])
      else
        (case runPlaybookWithSetup e
                (updateStatus e w request PhaseFreshProvision
                   (''Target version: '' @ Version (Spec instance)))
                (Namespace request) instance ''provision'' of
           ((res, err), w2) \<Rightarrow>
             (if err = None
              then ((res, err),
                    updateStatus e (snd (setOwnerReference e w2 request instance)) request
                      PhaseProvisioned ''Provision finished.'')
              else ((res, err),
                    updateStatus e w2 request PhaseProvisionFailed
                      ''Failed to provision Kubevirt Web UI. See operator's log for more details.''))))"

definition deprovision :: "env \<Rightarrow> world \<Rightarrow> NamespacedName \<Rightarrow> KWebUI
                             \<Rightarrow> (Result \<times> error option) \<times> world" where
  "deprovision e w request instance =
     (case runPlaybookWithSetup e (updateStatus e w request PhaseDeprovision [])
             (Namespace request) instance ''deprovision'' of
        ((res, err), w2) \<Rightarrow>
          (if err = None
           then ((res, err), updateStatus e w2 request PhaseDeprovisioned ''Deprovision finished.'')
           else ((res, err),
                 updateStatus e w2 request PhaseDeprovisionFailed
                   ''Failed to deprovision Kubevirt Web UI. See operator's log for more details.'')))"

text \<open>
  The loop over the containers of \<^verbatim>\<open>reconcileExistingDeployment\<close>: the first container
  named \<^verbatim>\<open>console\<close> ends it, either with the function's early return (\<open>Inl\<close>) or with
  \<^verbatim>\<open>break\<close>; without such a container \<^verbatim>\<open>existingVersion\<close> stays empty.
\<close>

fun existingVersionOf :: "Container list \<Rightarrow> error + string" where
  "existingVersionOf [] = Inr []"
| "existingVersionOf (container # rest) =
     (if ContainerName container = WebUIContainerName
      then (let existingVersion = TrimPrefix (afterLast (Image container) '':'') ''v'' in
            if existingVersion = []
            then Inl (ErrorString ''failed to read existing image tag'')
            else Inr existingVersion)
      else existingVersionOf rest)"

definition reconcileExistingDeployment :: "env \<Rightarrow> world \<Rightarrow> NamespacedName \<Rightarrow> KWebUI \<Rightarrow> Deployment
                                             \<Rightarrow> (Result \<times> error option) \<times> world" where
  "reconcileExistingDeployment e w request instance deployment =
     (case existingVersionOf (Containers deployment) of
        Inl err \<Rightarrow> ((emptyResult, Some err), w)
      | Inr existingVersion \<Rightarrow>
          (if existingVersion = []
           then ((emptyResult, None),
                 updateStatus e w request PhaseOtherError ''Can not read deployed container version.'')
           else if Version (Spec instance) = existingVersion
           then ((emptyResult, None),
                 updateStatus e w request PhaseProvisioned
                   (''Existing version conform the requested one: '' @ existingVersion
                      @ ''. Nothing to do.''))
           else if Version (Spec instance) = []
           then deprovision e w request instance
           else
             (case deprovision e w request instance of
                ((res, err), w1) \<Rightarrow>
                  (if err \<noteq> None then ((emptyResult, err), w1)
                   else freshProvision e w1 request instance))))"

definition Reconcile :: "env \<Rightarrow> world \<Rightarrow> NamespacedName \<Rightarrow> (Result \<times> error option) \<times> world" where
  "Reconcile e w request =
     (case clientGetKWebUI e w request of
        (Inl err, w1) \<Rightarrow>
          (if IsNotFound err then ((emptyResult, None), w1)
           else ((emptyResult, Some err), w1))
      | (Inr instance, w1) \<Rightarrow>
          (case clientGetDeployment e w1 \<lparr>Namespace = Namespace request, Name = ''console''\<rparr> of
             (Inl err, w2) \<Rightarrow>
               (if IsNotFound err then freshProvision e w2 request instance
                else ((emptyResult, Some err),
                      updateStatus e w2 request PhaseOtherError
                        ''Failed to retrieve kubevirt-web-ui Deployment object.''))
           | (Inr deployment, w2) \<Rightarrow>
               reconcileExistingDeployment e w2 request instance deployment))"

section \<open>Observations\<close>

text \<open>The phase and message of every call of \<^verbatim>\<open>updateStatus\<close> in a list of events.\<close>

fun statusWrites :: "event list \<Rightarrow> (string \<times> string) list" where
  "statusWrites [] = []"
| "statusWrites (EvUpdateStatus r p m # evs) = (p, m) # statusWrites evs"
| "statusWrites (EvExec c a v # evs) = statusWrites evs"
| "statusWrites (EvCreate n # evs) = statusWrites evs"
| "statusWrites (EvRemove n # evs) = statusWrites evs"

text \<open>The whole text \<^verbatim>\<open>generateInventory\<close> sends to the file, in the order of its writes.\<close>

definition inventoryContent :: "KWebUI \<Rightarrow> string \<Rightarrow> string \<Rightarrow> string" where
  "inventoryContent instance namespace action =
     concat (inventoryWrites instance namespace action) @ inventoryLastWrite"

text \<open>
  The text a sequence of calls of \<^verbatim>\<open>WriteString\<close> leaves in an open file, the first
  of them being write number \<open>n\<close>: the whole string of a write that succeeds, the first
  \<open>written\<close> bytes of one that fails.
\<close>

fun writtenText :: "env \<Rightarrow> nat \<Rightarrow> string list \<Rightarrow> string" where
  "writtenText e n [] = []"
| "writtenText e n (s # ss) =
     (case fault e Write n of None \<Rightarrow> s | Some err \<Rightarrow> take (written e n) s)
     @ writtenText e (Suc n) ss"

text \<open>
  The part of the world the API client reads and the status reporter writes: the stored
  resources and the numbers of earlier fetches and updates.
\<close>

definition apiView :: "world \<Rightarrow> (NamespacedName \<rightharpoonup> KWebUI) \<times> nat \<times> nat \<times> nat" where
  "apiView w = (kwebuis w, calls w GetKWebUI, calls w Update, calls w GetDeployment)"

text \<open>
  The lines of the generated configuration artifact as the interface section of the
  specification lists them, for comparison with what \<^verbatim>\<open>generateInventory\<close> writes;
  \<open>unlines\<close> ends every line with a line break.
\<close>

definition specInventoryLines :: "KWebUI \<Rightarrow> string \<Rightarrow> string \<Rightarrow> string list" where
  "specInventoryLines instance namespace action =
     [''[OSEv3:children]'', ''masters'', [], ''[OSEv3:vars]'', ''platform=openshift'',
      ''apb_action='' @ action,
      ''registry_url='' @ (if RegistryUrl (Spec instance) = [] then ''quay.io''
                           else RegistryUrl (Spec instance)),
      ''registry_namespace='' @ (if RegistryNamespace (Spec instance) = [] then ''kubevirt''
                                 else RegistryNamespace (Spec instance)),
      ''docker_tag='' @ (if Version (Spec instance) = [] then ''v1.4''
                         else Version (Spec instance)),
      ''kubevirt_web_ui_namespace='' @ (if namespace = [] then ''kubevirt-web-ui'' else namespace)]
     @ (if action = ''deprovision'' then [''preserve_namespace=true''] else [])
     @ (if OpenshiftMasterDefaultSubdomain (Spec instance) = [] then []
        else [''openshift_master_default_subdomain=''
                @ OpenshiftMasterDefaultSubdomain (Spec instance)])
     @ (if PublicMasterHostname (Spec instance) = [] then []
        else [''public_master_hostname='' @ PublicMasterHostname (Spec instance)])
     @ [[], ''[masters]'', ''127.0.0.1 ansible_connection=local'']"

definition unlines :: "string list \<Rightarrow> string" where
  "unlines ls = concat (map (\<lambda>l. l @ ''\<newline>'') ls)"

text \<open>
  For the question whether the status reporter can change the outcome of a pass:
  \<open>withStatusFaults g u n0 e\<close> is the environment \<open>e\<close> with other outcomes for every
  update and for every fetch of the resource except fetch number \<open>n0\<close>; two
  environments agree when they differ at most there, and two worlds are the same outside
  when they differ at most in the stored resources and the number of updates.
\<close>

definition withStatusFaults :: "(nat \<Rightarrow> error option) \<Rightarrow> (nat \<Rightarrow> error option) \<Rightarrow> nat \<Rightarrow> env \<Rightarrow> env" where
  "withStatusFaults g u n0 e =
     e\<lparr>fault := (\<lambda>k n. if k = Update then u n
                       else if k = GetKWebUI \<and> n \<noteq> n0 then g n
                       else fault e k n)\<rparr>"

definition envAgree :: "env \<Rightarrow> env \<Rightarrow> bool" where
  "envAgree e e' \<longleftrightarrow>
     inClusterConfig e = inClusterConfig e' \<and> randRead e = randRead e'
     \<and> written e = written e' \<and> environ e = environ e' \<and> process e = process e'
     \<and> setControllerReference e = setControllerReference e'
     \<and> fault e GetDeployment = fault e' GetDeployment
     \<and> fault e Create = fault e' Create \<and> fault e Write = fault e' Write
     \<and> fault e Remove = fault e' Remove"

definition sameOutside :: "world \<Rightarrow> world \<Rightarrow> bool" where
  "sameOutside w w' \<longleftrightarrow>
     deployments w = deployments w' \<and> files w = files w' \<and> events w = events w'
     \<and> calls w GetKWebUI = calls w' GetKWebUI
     \<and> calls w GetDeployment = calls w' GetDeployment
     \<and> calls w InClusterConfig = calls w' InClusterConfig
     \<and> calls w RandRead = calls w' RandRead
     \<and> calls w Process = calls w' Process
     \<and> calls w Create = calls w' Create
     \<and> calls w Write = calls w' Write
     \<and> calls w Remove = calls w' Remove"

section \<open>Sample inputs\<close>

text \<open>
  A request, a resource shaped like the example of the cluster service version manifest,
  a Deployment with one \<^verbatim>\<open>console\<close> container, and a world without that Deployment.
\<close>

definition sampleRequest :: NamespacedName where
  "sampleRequest = \<lparr>Namespace = ''kubevirt-web-ui'', Name = ''kubevirt-web-ui''\<rparr>"

definition sampleKWebUI :: "string \<Rightarrow> KWebUI" where
  "sampleKWebUI v =
     \<lparr>Spec = \<lparr>Version = v, RegistryUrl = ''quay.io'', RegistryNamespace = ''kubevirt'',
              OpenshiftMasterDefaultSubdomain = [], PublicMasterHostname = []\<rparr>,
      Status = \<lparr>Phase = [], Message = []\<rparr>\<rparr>"

definition consoleDeployment :: "string \<Rightarrow> Deployment" where
  "consoleDeployment img =
     \<lparr>Containers = [\<lparr>ContainerName = ''console'', Image = img\<rparr>], OwnerReferences = []\<rparr>"

definition consoleName :: NamespacedName where
  "consoleName = \<lparr>Namespace = ''kubevirt-web-ui'', Name = ''console''\<rparr>"

definition sampleWorld :: "string \<Rightarrow> world" where
  "sampleWorld v =
     \<lparr>kwebuis = [sampleRequest \<mapsto> sampleKWebUI v], deployments = Map.empty,
      files = Map.empty, events = [], calls = (\<lambda>k. 0)\<rparr>"

text \<open>
  An environment in which nothing fails: \<^verbatim>\<open>oc login\<close> writes the file named by
  \<^verbatim>\<open>KUBECONFIG\<close>, every other process exits zero and changes nothing.
\<close>

definition calmEnv :: env where
  "calmEnv =
     \<lparr>fault = (\<lambda>k n. None),
      inClusterConfig = (\<lambda>n. Inr \<lparr>Host = ''https://10.0.0.1:443'', CAFile = ''/ca.crt'',
                                  BearerToken = ''token''\<rparr>),
      randRead = (\<lambda>n. Some [CHR 0x01, CHR 0x02, CHR 0x03, CHR 0x04, CHR 0x05]),
      written = (\<lambda>n. 0),
      environ = [],
      process = (\<lambda>n cmd args envv d f.
                   if cmd = ''oc'' \<and> take 1 args = [''login'']
                   then Exited d (f(drop 11 (last envv) \<mapsto> ''kubeconfig''))
                   else Exited d f),
      setControllerReference =
        (\<lambda>owner d. (None, d\<lparr>OwnerReferences :=
                               [\<lparr>OwnerName = ''kubevirt-web-ui'', IsController = True\<rparr>]\<rparr>))\<rparr>"

text \<open>
  Variations: a full disk on which a failing write leaves nothing in the file; an API
  server that times out on every Deployment fetch after the first; such a server that
  also rejects the third update of the resource; and a disk on which the ninth write
  fails and leaves nothing in the file.
\<close>

definition diskFullEnv :: env where
  "diskFullEnv =
     calmEnv\<lparr>fault := (\<lambda>k n. if k = Write then Some (PathError ''no space left on device'')
                              else None)\<rparr>"

definition linkFailEnv :: env where
  "linkFailEnv =
     calmEnv\<lparr>fault := (\<lambda>k n. if k = GetDeployment \<and> 0 < n
                              then Some (ApiError ''etcdserver: request timed out'')
                              else None)\<rparr>"

definition lostUpdateEnv :: env where
  "lostUpdateEnv =
     calmEnv\<lparr>fault := (\<lambda>k n. if k = GetDeployment \<and> 0 < n
                              then Some (ApiError ''etcdserver: request timed out'')
                              else if k = Update \<and> n = 2
                              then Some (ApiError ''the object has been modified'')
                              else None)\<rparr>"

definition droppedWriteEnv :: env where
  "droppedWriteEnv =
     calmEnv\<lparr>fault := (\<lambda>k n. if k = Write \<and> n = 8 then Some (PathError ''input/output error'')
                              else None)\<rparr>"

section \<open>Basic facts\<close>

lemma statusWrites_append: "statusWrites (xs @ ys) = statusWrites xs @ statusWrites ys"
  by (induction xs rule: statusWrites.induct) simp_all

lemma updateStatus_events:
  "events (updateStatus e w r p m) = events w @ [EvUpdateStatus r p m]"
  by (simp add: updateStatus_def clientGetKWebUI_def clientUpdate_def tick_def record_event_def
           split: option.splits)

lemma updateStatus_deployments: "deployments (updateStatus e w r p m) = deployments w"
  by (simp add: updateStatus_def clientGetKWebUI_def clientUpdate_def tick_def record_event_def
           split: option.splits)

lemma updateStatus_files: "files (updateStatus e w r p m) = files w"
  by (simp add: updateStatus_def clientGetKWebUI_def clientUpdate_def tick_def record_event_def
           split: option.splits)

lemma updateStatus_stored:
  assumes "fault e GetKWebUI (calls w GetKWebUI) = None"
      and "fault e Update (calls w Update) = None"
      and "kwebuis w r = Some i"
  shows "kwebuis (updateStatus e w r p m)
           = (kwebuis w)(r \<mapsto> i\<lparr>Status := (Status i)\<lparr>Phase := p, Message := m\<rparr>\<rparr>)"
  using assms
  by (simp add: updateStatus_def clientGetKWebUI_def clientUpdate_def tick_def record_event_def)

lemma existingVersionOf_skip:
  "list_all (\<lambda>c. ContainerName c \<noteq> WebUIContainerName) pre
     \<Longrightarrow> existingVersionOf (pre @ rest) = existingVersionOf rest"
  by (induction pre) simp_all

lemma existingVersionOf_none:
  "list_all (\<lambda>c. ContainerName c \<noteq> WebUIContainerName) cs \<Longrightarrow> existingVersionOf cs = Inr []"
  by (induction cs) simp_all

text \<open>
  \<^verbatim>\<open>afterLast\<close> with a separator of one character: the text after the last
  occurrence, which is empty when the character does not occur or ends the string.
\<close>

lemma LastIndex_snoc:
  "LastIndex (xs @ [x]) [c] = (if x = c then int (length xs) else LastIndex xs [c])"
proof -
  have inner: "filter (\<lambda>i. take (Suc 0) (drop i (xs @ [x])) = [c]) (rev [0..<length xs])
               = filter (\<lambda>i. take (Suc 0) (drop i xs) = [c]) (rev [0..<length xs])"
  proof (rule filter_cong)
    fix i assume "i \<in> set (rev [0..<length xs])"
    then have "drop i xs \<noteq> []" by simp
    then show "(take (Suc 0) (drop i (xs @ [x])) = [c]) = (take (Suc 0) (drop i xs) = [c])"
      by (cases "drop i xs") auto
  qed simp
  show ?thesis
  proof (cases xs)
    case Nil
    then show ?thesis by (simp add: LastIndex_def)
  next
    case (Cons y ys)
    then show ?thesis
      using inner by (simp add: LastIndex_def)
  qed
qed

lemma LastIndex_char:
  "(c \<notin> set s \<longrightarrow> LastIndex s [c] = -1)
   \<and> (c \<in> set s \<longrightarrow> 0 \<le> LastIndex s [c] \<and> LastIndex s [c] < int (length s)
         \<and> drop (nat (LastIndex s [c] + 1)) s = rev (takeWhile (\<lambda>x. x \<noteq> c) (rev s)))"
proof (induction s rule: rev_induct)
  case Nil
  show ?case by (simp add: LastIndex_def)
next
  case (snoc x xs)
  show ?case
  proof (cases "x = c")
    case True
    then show ?thesis by (simp add: LastIndex_snoc)
  next
    case False
    then show ?thesis using snoc by (auto simp: LastIndex_snoc nat_add_distrib)
  qed
qed

lemma afterLast_char:
  "afterLast s [c] = (if c \<in> set s then rev (takeWhile (\<lambda>x. x \<noteq> c) (rev s)) else [])"
  using LastIndex_char[of c s]
  by (auto simp: afterLast_def Let_def)

lemma afterLast_empty_iff:
  "afterLast s [c] = [] \<longleftrightarrow> c \<notin> set s \<or> (s \<noteq> [] \<and> last s = c)"
proof (cases s rule: rev_cases)
  case Nil
  then show ?thesis by (simp add: afterLast_char)
next
  case (snoc xs x)
  then show ?thesis by (auto simp: afterLast_char)
qed

text \<open>
  How a pass reaches its two branches: \<^verbatim>\<open>Reconcile\<close> fetches the resource and the
  Deployment and hands over to \<^verbatim>\<open>reconcileExistingDeployment\<close> or, when the
  Deployment is not found, to \<^verbatim>\<open>freshProvision\<close>.
\<close>

lemma Reconcile_existing:
  assumes "clientGetKWebUI e w request = (Inr instance, w1)"
      and "clientGetDeployment e w1 \<lparr>Namespace = Namespace request, Name = ''console''\<rparr>
             = (Inr deployment, w2)"
  shows "Reconcile e w request = reconcileExistingDeployment e w2 request instance deployment"
  using assms by (simp add: Reconcile_def)

lemma Reconcile_not_found:
  assumes "clientGetKWebUI e w request = (Inr instance, w1)"
      and "clientGetDeployment e w1 \<lparr>Namespace = Namespace request, Name = ''console''\<rparr>
             = (Inl NotFound, w2)"
  shows "Reconcile e w request = freshProvision e w2 request instance"
  using assms by (simp add: Reconcile_def IsNotFound_def)

subsection \<open>Status writes of each step\<close>

lemma unique_events: "unique e w = (u, w') \<Longrightarrow> events w' = events w"
  by (auto simp: unique_def tick_def split: option.splits if_splits)

lemma runCommand_statusWrites:
  "runCommand e w cmd args envv an = (r, w') \<Longrightarrow> statusWrites (events w') = statusWrites (events w)"
  by (auto simp: runCommand_def tick_def record_event_def statusWrites_append Let_def
           split: procOutcome.splits)

lemma removeFile_statusWrites:
  "statusWrites (events (removeFile e w name)) = statusWrites (events w)"
  by (simp add: removeFile_def tick_def record_event_def statusWrites_append Let_def
           split: option.splits)

lemma osCreate_statusWrites:
  "osCreate e w name = (r, w') \<Longrightarrow> statusWrites (events w') = statusWrites (events w)"
  by (auto simp: osCreate_def tick_def record_event_def statusWrites_append Let_def
           split: option.splits)

lemma WriteString_events: "WriteString e w name s = (r, w') \<Longrightarrow> events w' = events w"
  by (auto simp: WriteString_def tick_def split: option.splits)

lemma WriteStrings_events: "events (WriteStrings e w name ss) = events w"
proof (induction ss arbitrary: w)
  case Nil
  show ?case by simp
next
  case (Cons s ss)
  obtain r w' where "WriteString e w name s = (r, w')" by force
  then show ?case using Cons WriteString_events by fastforce
qed

lemma loginClient_statusWrites:
  "loginClient e w ns = (r, w') \<Longrightarrow> statusWrites (events w') = statusWrites (events w)"
  by (auto simp: loginClient_def Let_def tick_def
           split: sum.splits prod.splits option.splits
           dest!: unique_events runCommand_statusWrites)

lemma generateInventory_statusWrites:
  "generateInventory e w i ns a = (r, w') \<Longrightarrow> statusWrites (events w') = statusWrites (events w)"
  by (auto simp: generateInventory_def Let_def WriteStrings_events
           split: sum.splits prod.splits option.splits
           dest!: unique_events osCreate_statusWrites WriteString_events)

lemma runPlaybook_statusWrites:
  "runPlaybook e w ifile cfile = (r, w') \<Longrightarrow> statusWrites (events w') = statusWrites (events w)"
  by (auto simp: runPlaybook_def Let_def dest!: runCommand_statusWrites)

lemma runPlaybookWithSetup_statusWrites:
  "runPlaybookWithSetup e w ns i a = (r, w')
     \<Longrightarrow> statusWrites (events w') = statusWrites (events w)"
  by (auto simp: runPlaybookWithSetup_def removeFile_statusWrites
           split: sum.splits prod.splits
           dest!: loginClient_statusWrites generateInventory_statusWrites runPlaybook_statusWrites)

lemma runPlaybookWithSetup_result: "fst (fst (runPlaybookWithSetup e w ns i a)) = emptyResult"
  by (simp add: runPlaybookWithSetup_def split: prod.splits sum.splits)

lemma setOwnerReference_statusWrites:
  "setOwnerReference e w r i = (lerr, w')
     \<Longrightarrow> statusWrites (events w')
           = statusWrites (events w)
             @ (if lerr = None then []
                else [(PhaseOwnerReferenceFailed,
                       ''Failed to retrieve the just created kubevirt-web-ui Deployment object to set owner reference.'')])"
  by (auto simp: setOwnerReference_def clientGetDeployment_def tick_def updateStatus_events
                 statusWrites_append
           split: option.splits prod.splits)

lemma deprovision_statusWrites:
  "deprovision e w r i = ((res, err), w')
     \<Longrightarrow> res = emptyResult
         \<and> statusWrites (events w')
           = statusWrites (events w)
             @ [(PhaseDeprovision, []),
                if err = None then (PhaseDeprovisioned, ''Deprovision finished.'')
                else (PhaseDeprovisionFailed,
                      ''Failed to deprovision Kubevirt Web UI. See operator's log for more details.'')]"
  using runPlaybookWithSetup_result[of e "updateStatus e w r PhaseDeprovision []" "Namespace r" i "''deprovision''"]
  by (auto simp: deprovision_def updateStatus_events statusWrites_append
           split: prod.splits if_splits
           dest!: runPlaybookWithSetup_statusWrites)

lemma setOwnerReference_statusWrites_snd:
  "statusWrites (events (snd (setOwnerReference e w r i)))
     = statusWrites (events w)
       @ (if fst (setOwnerReference e w r i) = None then []
          else [(PhaseOwnerReferenceFailed,
                 ''Failed to retrieve the just created kubevirt-web-ui Deployment object to set owner reference.'')])"
  using setOwnerReference_statusWrites[of e w r i "fst (setOwnerReference e w r i)"
          "snd (setOwnerReference e w r i)"]
  by simp

lemma freshProvision_statusWrites_prefix:
  "Version (Spec i) \<noteq> []
     \<Longrightarrow> prefix (statusWrites (events w)
                  @ [(PhaseFreshProvision, ''Target version: '' @ Version (Spec i))])
                (statusWrites (events (snd (freshProvision e w r i))))"
  by (auto simp: freshProvision_def updateStatus_events statusWrites_append
                 setOwnerReference_statusWrites_snd
           split: prod.splits
           dest!: runPlaybookWithSetup_statusWrites)


subsection \<open>What the workflow leaves alone\<close>

lemma unique_apiView: "unique e w = (u, w') \<Longrightarrow> apiView w' = apiView w"
  by (auto simp: unique_def tick_def apiView_def split: option.splits if_splits)

lemma runCommand_apiView:
  "runCommand e w cmd args envv an = (r, w') \<Longrightarrow> apiView w' = apiView w"
  by (auto simp: runCommand_def tick_def record_event_def apiView_def Let_def
           split: procOutcome.splits)

lemma removeFile_apiView: "apiView (removeFile e w name) = apiView w"
  by (simp add: removeFile_def tick_def record_event_def apiView_def Let_def
           split: option.splits)

lemma osCreate_apiView: "osCreate e w name = (r, w') \<Longrightarrow> apiView w' = apiView w"
  by (auto simp: osCreate_def tick_def record_event_def apiView_def Let_def
           split: option.splits)

lemma WriteString_apiView: "WriteString e w name s = (r, w') \<Longrightarrow> apiView w' = apiView w"
  by (auto simp: WriteString_def tick_def apiView_def split: option.splits)

lemma WriteStrings_apiView: "apiView (WriteStrings e w name ss) = apiView w"
proof (induction ss arbitrary: w)
  case Nil
  show ?case by simp
next
  case (Cons s ss)
  obtain r w' where "WriteString e w name s = (r, w')" by force
  then show ?case using Cons WriteString_apiView by fastforce
qed

lemma loginClient_apiView: "loginClient e w ns = (r, w') \<Longrightarrow> apiView w' = apiView w"
proof -
  have t: "apiView (tick InClusterConfig w) = apiView w" by (simp add: tick_def apiView_def)
  show "loginClient e w ns = (r, w') \<Longrightarrow> apiView w' = apiView w"
    using t
    by (auto simp: loginClient_def Let_def
             split: sum.splits prod.splits option.splits
             dest!: unique_apiView runCommand_apiView)
qed

lemma generateInventory_apiView:
  "generateInventory e w i ns a = (r, w') \<Longrightarrow> apiView w' = apiView w"
  by (auto simp: generateInventory_def Let_def WriteStrings_apiView
           split: sum.splits prod.splits option.splits
           dest!: unique_apiView osCreate_apiView WriteString_apiView)

lemma runPlaybook_apiView:
  "runPlaybook e w ifile cfile = (r, w') \<Longrightarrow> apiView w' = apiView w"
  by (auto simp: runPlaybook_def Let_def dest!: runCommand_apiView)

lemma runPlaybookWithSetup_apiView:
  "runPlaybookWithSetup e w ns i a = (r, w') \<Longrightarrow> apiView w' = apiView w"
  by (auto simp: runPlaybookWithSetup_def removeFile_apiView
           split: sum.splits prod.splits
           dest!: loginClient_apiView generateInventory_apiView runPlaybook_apiView)

subsection \<open>A workflow in which nothing fails\<close>

lemma runCommand_exits:
  "\<forall>n c a v d f. \<exists>d' f'. process e n c a v d f = Exited d' f'
     \<Longrightarrow> fst (runCommand e w cmd args envv an) = None"
proof -
  assume "\<forall>n c a v d f. \<exists>d' f'. process e n c a v d f = Exited d' f'"
  then obtain d' f' where
    "process e (calls w Process) cmd args (environ e @ envv) (deployments w) (files w) = Exited d' f'"
    by blast
  then show ?thesis by (simp add: runCommand_def Let_def)
qed

lemma loginClient_succeeds:
  assumes "\<forall>n. \<exists>c. inClusterConfig e n = Inr c"
      and "\<forall>n c a v d f. \<exists>d' f'. process e n c a v d f = Exited d' f'"
  shows "\<exists>cfg. fst (loginClient e w ns) = Inr cfg"
proof -
  obtain c where c: "inClusterConfig e (calls w InClusterConfig) = Inr c"
    using assms(1) by blast
  obtain u w1 where u: "unique e (tick InClusterConfig w) = (u, w1)" by force
  show ?thesis
    using c u runCommand_exits[OF assms(2)]
    by (auto simp: loginClient_def Let_def split: prod.splits option.splits)
       (metis fst_conv option.distinct(1))+
qed

lemma unique_files: "unique e w = (u, w') \<Longrightarrow> files w' = files w \<and> calls w' Create = calls w Create \<and> calls w' Write = calls w Write"
  by (auto simp: unique_def tick_def split: option.splits if_splits)

lemma WriteStrings_ok:
  "\<forall>n. fault e Write n = None \<Longrightarrow> files w name = Some c
     \<Longrightarrow> files (WriteStrings e w name ss) = (files w)(name \<mapsto> c @ concat ss)"
proof (induction ss arbitrary: w c)
  case Nil
  then show ?case by (simp add: fun_upd_idem)
next
  case (Cons s ss)
  have step: "files (snd (WriteString e w name s)) = (files w)(name \<mapsto> c @ s)"
    using Cons.prems by (simp add: WriteString_def tick_def)
  then have "files (snd (WriteString e w name s)) name = Some (c @ s)" by simp
  from Cons.IH[OF Cons.prems(1) this] step show ?case by (auto simp: fun_eq_iff)
qed

lemma generateInventory_ok:
  assumes "\<forall>n. fault e Write n = None"
      and "fault e Create (calls w Create) = None"
      and "generateInventory e w i ns a = (r, w')"
  shows "r = Inr (InventoryFilePattern (fst (unique e w)))
         \<and> files w' = (files w)(InventoryFilePattern (fst (unique e w)) \<mapsto> inventoryContent i ns a)"
proof -
  obtain u w0 where u: "unique e w = (u, w0)" by force
  note f0 = unique_files[OF u]
  define path where "path = InventoryFilePattern u"
  define w1 where "w1 = snd (osCreate e w0 path)"
  have c: "osCreate e w0 path = (None, w1)"
    using assms(2) f0 by (simp add: w1_def osCreate_def Let_def)
  have f1: "files w1 = (files w)(path \<mapsto> [])"
    using assms(2) f0 by (simp add: w1_def osCreate_def Let_def tick_def record_event_def)
  define w2 where "w2 = WriteStrings e w1 path (inventoryWrites i ns a)"
  have f2: "files w2 = (files w)(path \<mapsto> concat (inventoryWrites i ns a))"
    using WriteStrings_ok[OF assms(1), of w1 path "[]" "inventoryWrites i ns a"] f1
    by (simp add: w2_def)
  have l: "WriteString e w2 path inventoryLastWrite
             = (None, tick Write (w2\<lparr>files := (files w2)(path \<mapsto>
                                     concat (inventoryWrites i ns a) @ inventoryLastWrite)\<rparr>))"
    using assms(1) f2 by (simp add: WriteString_def)
  show ?thesis
    using assms(3) u c l f2
    by (auto simp: generateInventory_def Let_def path_def[symmetric] w2_def[symmetric]
                   inventoryContent_def tick_def)
qed

lemma runPlaybookWithSetup_succeeds:
  assumes "\<forall>n. \<exists>c. inClusterConfig e n = Inr c"
      and "\<forall>n c a v d f. \<exists>d' f'. process e n c a v d f = Exited d' f'"
      and "\<forall>n. fault e Create n = None"
      and "\<forall>n. fault e Write n = None"
  shows "fst (runPlaybookWithSetup e w ns i a) = (emptyResult, None)"
proof -
  obtain cfg where cfg: "fst (loginClient e w ns) = Inr cfg"
    using loginClient_succeeds[OF assms(1,2)] by blast
  define w1 where "w1 = snd (loginClient e w ns)"
  have l: "loginClient e w ns = (Inr cfg, w1)"
    using cfg by (simp add: w1_def prod_eq_iff)
  obtain r w2 where g: "generateInventory e w1 i ns a = (r, w2)" by force
  have "fault e Create (calls w1 Create) = None"
    using assms(3) by simp
  from generateInventory_ok[OF assms(4) this g]
  obtain inv where r: "r = Inr inv" by blast
  have p: "fst (runPlaybook e w2 inv cfg) = None"
    by (simp add: runPlaybook_def Let_def runCommand_exits[OF assms(2)])
  show ?thesis
    using l g r p by (auto simp: runPlaybookWithSetup_def split: prod.splits)
qed

lemma calmEnv_reliable:
  "\<forall>n. \<exists>c. inClusterConfig calmEnv n = Inr c"
  "\<forall>n c a v d f. \<exists>d' f'. process calmEnv n c a v d f = Exited d' f'"
  "\<forall>n. fault calmEnv Create n = None"
  "\<forall>n. fault calmEnv Write n = None"
  by (simp_all add: calmEnv_def)

lemma linkFailEnv_reliable:
  "\<forall>n. \<exists>c. inClusterConfig linkFailEnv n = Inr c"
  "\<forall>n c a v d f. \<exists>d' f'. process linkFailEnv n c a v d f = Exited d' f'"
  "\<forall>n. fault linkFailEnv Create n = None"
  "\<forall>n. fault linkFailEnv Write n = None"
  by (simp_all add: linkFailEnv_def calmEnv_def)

subsection \<open>Provisioning and the ownership link\<close>

lemma status_update_collapse:
  "i\<lparr>Status := (Status i)\<lparr>Phase := p, Message := m\<rparr>\<rparr> = i\<lparr>Status := \<lparr>Phase = p, Message = m\<rparr>\<rparr>"
  by (cases "Status i") simp

lemma updateStatus_apiView_GetDeployment:
  "calls (updateStatus e w r p m) GetDeployment = calls w GetDeployment"
  by (simp add: updateStatus_def clientGetKWebUI_def clientUpdate_def tick_def record_event_def
           split: option.splits)

lemma freshProvision_unfold:
  assumes "Version (Spec i) \<noteq> []"
      and "runPlaybookWithSetup e
             (updateStatus e w r PhaseFreshProvision (''Target version: '' @ Version (Spec i)))
             (Namespace r) i ''provision'' = ((res, None), w2)"
  shows "freshProvision e w r i
           = ((emptyResult, None),
              updateStatus e (snd (setOwnerReference e w2 r i)) r PhaseProvisioned
                ''Provision finished.'')"
  using assms
    runPlaybookWithSetup_result[of e
      "updateStatus e w r PhaseFreshProvision (''Target version: '' @ Version (Spec i))"
      "Namespace r" i "''provision''"]
  by (simp add: freshProvision_def)


lemma setOwnerReference_fault:
  "fault e GetDeployment (calls w GetDeployment) = Some err
     \<Longrightarrow> setOwnerReference e w r i
           = (Some err,
              updateStatus e (tick GetDeployment w) r PhaseOwnerReferenceFailed
                ''Failed to retrieve the just created kubevirt-web-ui Deployment object to set owner reference.'')"
  by (simp add: setOwnerReference_def clientGetDeployment_def)

lemma updateStatus_reliable:
  assumes "\<forall>n. fault e GetKWebUI n = None"
      and "\<forall>n. fault e Update n = None"
      and "kwebuis w r = Some i"
  shows "kwebuis (updateStatus e w r p m) r = Some (i\<lparr>Status := \<lparr>Phase = p, Message = m\<rparr>\<rparr>)"
  using updateStatus_stored[of e w r i p m] assms
  by (simp add: status_update_collapse)

lemma updateStatus_apiView:
  assumes "fault e GetKWebUI (calls w GetKWebUI) = None"
      and "kwebuis w r = Some i"
  shows "apiView (updateStatus e w r p m)
           = (if fault e Update (calls w Update) = None
              then (kwebuis w)(r \<mapsto> i\<lparr>Status := \<lparr>Phase = p, Message = m\<rparr>\<rparr>)
              else kwebuis w,
              Suc (calls w GetKWebUI), Suc (calls w Update), calls w GetDeployment)"
  using assms
  by (auto simp: updateStatus_def clientGetKWebUI_def clientUpdate_def tick_def record_event_def
                 apiView_def status_update_collapse
           split: option.splits)

lemma lostUpdateEnv_reliable:
  "\<forall>n. \<exists>c. inClusterConfig lostUpdateEnv n = Inr c"
  "\<forall>n c a v d f. \<exists>d' f'. process lostUpdateEnv n c a v d f = Exited d' f'"
  "\<forall>n. fault lostUpdateEnv Create n = None"
  "\<forall>n. fault lostUpdateEnv Write n = None"
  by (simp_all add: lostUpdateEnv_def calmEnv_def)

lemma lostUpdateEnv_faults:
  "fault lostUpdateEnv GetKWebUI n = None"
  "fault lostUpdateEnv Update 0 = None"
  "fault lostUpdateEnv Update (Suc 0) = None"
  "fault lostUpdateEnv Update (Suc (Suc 0)) = Some (ApiError ''the object has been modified'')"
  "fault lostUpdateEnv GetDeployment 0 = None"
  "fault lostUpdateEnv GetDeployment (Suc 0) = Some (ApiError ''etcdserver: request timed out'')"
  by (simp_all add: lostUpdateEnv_def calmEnv_def)

lemma linkFailEnv_faults:
  "\<forall>n. fault linkFailEnv GetKWebUI n = None"
  "\<forall>n. fault linkFailEnv Update n = None"
  "0 < n \<Longrightarrow> fault linkFailEnv GetDeployment n = Some (ApiError ''etcdserver: request timed out'')"
  "fault linkFailEnv GetDeployment 0 = None"
  by (simp_all add: linkFailEnv_def calmEnv_def)

lemma linkFailEnv_provision:
  assumes "0 < calls w GetDeployment"
      and "kwebuis w r = Some i"
  shows "\<exists>w2. runPlaybookWithSetup linkFailEnv (updateStatus linkFailEnv w r p m) ns i a
                 = ((emptyResult, None), w2)
              \<and> setOwnerReference linkFailEnv w2 r i
                 = (Some (ApiError ''etcdserver: request timed out''),
                    updateStatus linkFailEnv (tick GetDeployment w2) r PhaseOwnerReferenceFailed
                      ''Failed to retrieve the just created kubevirt-web-ui Deployment object to set owner reference.'')
              \<and> kwebuis (tick GetDeployment w2) r = Some (i\<lparr>Status := \<lparr>Phase = p, Message = m\<rparr>\<rparr>)"
proof -
  define w1 where "w1 = updateStatus linkFailEnv w r p m"
  define w2 where "w2 = snd (runPlaybookWithSetup linkFailEnv w1 ns i a)"
  have run: "runPlaybookWithSetup linkFailEnv w1 ns i a = ((emptyResult, None), w2)"
    using runPlaybookWithSetup_succeeds[OF linkFailEnv_reliable, of w1 ns i a]
    by (simp add: w2_def prod_eq_iff)
  have view: "apiView w2 = apiView w1"
    using runPlaybookWithSetup_apiView[OF run] .
  have k1: "kwebuis w1 r = Some (i\<lparr>Status := \<lparr>Phase = p, Message = m\<rparr>\<rparr>)"
    unfolding w1_def using updateStatus_reliable[OF linkFailEnv_faults(1,2) assms(2)] .
  have c2: "0 < calls w2 GetDeployment"
    using view assms(1) by (simp add: apiView_def w1_def updateStatus_apiView_GetDeployment)
  have k2: "kwebuis (tick GetDeployment w2) r = Some (i\<lparr>Status := \<lparr>Phase = p, Message = m\<rparr>\<rparr>)"
    using view k1 by (simp add: apiView_def tick_def)
  show ?thesis
    using run setOwnerReference_fault[OF linkFailEnv_faults(3)[OF c2]] k2
    unfolding w1_def by blast
qed


subsection \<open>Files of a pass\<close>

lemma WriteStrings_all_fail:
  "\<forall>n. fault e Write n \<noteq> None \<Longrightarrow> \<forall>n. written e n = 0
     \<Longrightarrow> files (WriteStrings e w name ss) = files w"
proof (induction ss arbitrary: w)
  case Nil
  show ?case by simp
next
  case (Cons s ss)
  obtain err where "fault e Write (calls w Write) = Some err"
    using Cons.prems by auto
  then have "files (snd (WriteString e w name s)) = files w"
    using Cons.prems(2) by (auto simp: WriteString_def tick_def fun_eq_iff split: option.splits)
  with Cons.IH[OF Cons.prems] show ?case by simp
qed

lemma generateInventory_writes_fail:
  assumes "\<forall>n. fault e Write n = Some err"
      and "\<forall>n. written e n = 0"
      and "fault e Create (calls w Create) = None"
      and "generateInventory e w i ns a = (r, w')"
  shows "r = Inl err
         \<and> files w' = (files w)(InventoryFilePattern (fst (unique e w)) \<mapsto> [])
         \<and> events w' = events w @ [EvCreate (InventoryFilePattern (fst (unique e w)))]"
proof -
  obtain u w0 where u: "unique e w = (u, w0)" by force
  note f0 = unique_files[OF u] unique_events[OF u]
  define path where "path = InventoryFilePattern u"
  define w1 where "w1 = snd (osCreate e w0 path)"
  have c: "osCreate e w0 path = (None, w1)"
    using assms(3) f0 by (simp add: w1_def osCreate_def Let_def)
  have f1: "files w1 = (files w)(path \<mapsto> [])" "events w1 = events w @ [EvCreate path]"
    using assms(3) f0 by (simp_all add: w1_def osCreate_def Let_def tick_def record_event_def)
  define w2 where "w2 = WriteStrings e w1 path (inventoryWrites i ns a)"
  have f2: "files w2 = files w1" "events w2 = events w1"
    using WriteStrings_all_fail[of e w1 path "inventoryWrites i ns a"] assms(1,2)
    by (simp_all add: w2_def WriteStrings_events)
  obtain w3 where l: "WriteString e w2 path inventoryLastWrite = (Some err, w3)"
    and f3: "files w3 = files w2" "events w3 = events w2"
    using assms(1,2) f1 f2
    by (auto simp: WriteString_def tick_def fun_eq_iff split: option.splits)
  show ?thesis
    using assms(4) u c l f1 f2 f3
    by (auto simp: generateInventory_def Let_def path_def[symmetric] w2_def[symmetric])
qed

lemma removeFile_files:
  "fault e Remove (calls w Remove) = None
     \<Longrightarrow> files (removeFile e w name) = (files w)(name := None)"
  by (auto simp: removeFile_def Let_def tick_def record_event_def split: option.splits)

lemma removeFile_events: "events (removeFile e w name) = events w @ [EvRemove name]"
  by (simp add: removeFile_def Let_def tick_def record_event_def split: option.splits)

lemma diskFullEnv_login:
  "fst (loginClient diskFullEnv (sampleWorld v) ''kubevirt-web-ui'') = Inr ''/tmp/config_0102030405''"
  "events (snd (loginClient diskFullEnv (sampleWorld v) ''kubevirt-web-ui''))
     = [EvExec ''oc'' [''login'', ''https://10.0.0.1:443'', ''--certificate-authority=/ca.crt'',
                       ''--token=token''] [''KUBECONFIG=/tmp/config_0102030405''],
        EvExec ''oc'' [''project'', ''kubevirt-web-ui''] [''KUBECONFIG=/tmp/config_0102030405'']]"
  "files (snd (loginClient diskFullEnv (sampleWorld v) ''kubevirt-web-ui''))
     = [''/tmp/config_0102030405'' \<mapsto> ''kubeconfig'']"
  by (simp_all add: loginClient_def runCommand_def unique_def tick_def record_event_def
                    diskFullEnv_def calmEnv_def sampleWorld_def hexBytes_def hexDigit_def
                    ConfigFilePattern_def Let_def)

lemma diskFullEnv_unique: "fst (unique diskFullEnv w) = ''0102030405''"
  by (simp add: unique_def diskFullEnv_def calmEnv_def hexBytes_def hexDigit_def)

lemma diskFullEnv_faults:
  "\<forall>n. fault diskFullEnv Write n = Some (PathError ''no space left on device'')"
  "\<forall>n. written diskFullEnv n = 0"
  "fault diskFullEnv Create n = None"
  "fault diskFullEnv Remove n = None"
  by (simp_all add: diskFullEnv_def calmEnv_def)


lemma runPlaybookWithSetup_cleanup:
  assumes "loginClient e w ns = (Inr cfile, w1)"
      and "generateInventory e w1 i ns a = (Inr ifile, w2)"
  shows "events (snd (runPlaybookWithSetup e w ns i a))
           = events (snd (runPlaybook e w2 ifile cfile)) @ [EvRemove ifile, EvRemove cfile]"
  using assms by (simp add: runPlaybookWithSetup_def removeFile_events split: prod.splits)

subsection \<open>Lines of the inventory\<close>

lemma SplitLines_line:
  "CHR ''\<newline>'' \<notin> set l
     \<Longrightarrow> SplitLines (l @ CHR ''\<newline>'' # rest) = l # SplitLines rest"
  by (induction l) auto

lemma SplitLines_unlines:
  "list_all (\<lambda>l. CHR ''\<newline>'' \<notin> set l) ls \<Longrightarrow> SplitLines (unlines ls) = ls @ [[]]"
  by (induction ls) (simp_all add: unlines_def SplitLines_line)

lemma inventoryContent_unlines:
  "inventoryContent instance namespace action
     = unlines (specInventoryLines instance namespace action)"
  by (simp add: inventoryContent_def inventoryWrites_def inventoryLastWrite_def
                specInventoryLines_def unlines_def def_def)

lemma specInventoryLines_oneline:
  assumes "CHR ''\<newline>'' \<notin> set action"
      and "CHR ''\<newline>'' \<notin> set namespace"
      and "CHR ''\<newline>'' \<notin> set (RegistryUrl (Spec instance))"
      and "CHR ''\<newline>'' \<notin> set (RegistryNamespace (Spec instance))"
      and "CHR ''\<newline>'' \<notin> set (Version (Spec instance))"
      and "CHR ''\<newline>'' \<notin> set (OpenshiftMasterDefaultSubdomain (Spec instance))"
      and "CHR ''\<newline>'' \<notin> set (PublicMasterHostname (Spec instance))"
  shows "list_all (\<lambda>l. CHR ''\<newline>'' \<notin> set l) (specInventoryLines instance namespace action)"
  using assms by (simp add: specInventoryLines_def)


subsection \<open>The file of the inventory\<close>

lemma WriteStrings_written:
  "\<forall>k<length ss. fault e Write (calls w Write + k) = None \<Longrightarrow> files w name = Some c
     \<Longrightarrow> files (WriteStrings e w name ss) = (files w)(name \<mapsto> c @ concat ss)
         \<and> calls (WriteStrings e w name ss) Write = calls w Write + length ss"
proof (induction ss arbitrary: w c)
  case Nil
  then show ?case by (simp add: fun_upd_idem)
next
  case (Cons s ss)
  have f0: "fault e Write (calls w Write) = None" using Cons.prems(1) by auto
  define w1 where "w1 = snd (WriteString e w name s)"
  have step: "files w1 = (files w)(name \<mapsto> c @ s)" "calls w1 Write = Suc (calls w Write)"
    using Cons.prems(2) f0 by (simp_all add: w1_def WriteString_def tick_def)
  have rest: "\<forall>k<length ss. fault e Write (calls w1 Write + k) = None"
    using Cons.prems(1) step(2) by auto
  have "files w1 name = Some (c @ s)" using step by simp
  from Cons.IH[OF rest this] step show ?case by (auto simp: w1_def fun_eq_iff)
qed

lemma generateInventory_file:
  assumes "generateInventory e w i ns a = (Inr path, w')"
      and "\<forall>k<length (inventoryWrites i ns a). fault e Write (calls w Write + k) = None"
  shows "path = InventoryFilePattern (fst (unique e w))
         \<and> files w' = (files w)(path \<mapsto> inventoryContent i ns a)"
proof -
  obtain u w0 where u: "unique e w = (u, w0)" by force
  note f0 = unique_files[OF u]
  obtain r1 w1 where c: "osCreate e w0 (InventoryFilePattern u) = (r1, w1)" by force
  have r1: "r1 = None"
    using assms(1) u c by (auto simp: generateInventory_def Let_def split: option.splits)
  have p: "path = InventoryFilePattern u"
    using assms(1) u c r1 by (auto simp: generateInventory_def Let_def split: prod.splits option.splits)
  have f1: "files w1 = (files w)(path \<mapsto> [])" "calls w1 Write = calls w Write"
    using c r1 f0 p by (auto simp: osCreate_def Let_def tick_def record_event_def split: option.splits)
  define w2 where "w2 = WriteStrings e w1 path (inventoryWrites i ns a)"
  have f2: "files w2 = (files w)(path \<mapsto> concat (inventoryWrites i ns a))"
    using WriteStrings_written[of "inventoryWrites i ns a" e w1 path "[]"] f1 assms(2)
    by (simp add: w2_def)
  have l: "WriteString e w2 path inventoryLastWrite = (None, w')"
    using assms(1) u c r1 p
    by (auto simp: generateInventory_def Let_def w2_def split: prod.splits option.splits)
  have "files w' = (files w2)(path \<mapsto> concat (inventoryWrites i ns a) @ inventoryLastWrite)"
    using l f2 by (auto simp: WriteString_def tick_def split: option.splits)
  then show ?thesis using p u f2 by (simp add: inventoryContent_def)
qed

lemma WriteStrings_text:
  "files w name = Some c
     \<Longrightarrow> files (WriteStrings e w name ss) = (files w)(name \<mapsto> c @ writtenText e (calls w Write) ss)
         \<and> calls (WriteStrings e w name ss) Write = calls w Write + length ss"
proof (induction ss arbitrary: w c)
  case Nil
  then show ?case by (simp add: fun_upd_idem)
next
  case (Cons s ss)
  define t where "t = (case fault e Write (calls w Write) of None \<Rightarrow> s
                       | Some err \<Rightarrow> take (written e (calls w Write)) s)"
  define w1 where "w1 = snd (WriteString e w name s)"
  have step: "files w1 = (files w)(name \<mapsto> c @ t)" "calls w1 Write = Suc (calls w Write)"
    using Cons.prems by (auto simp: w1_def t_def WriteString_def tick_def split: option.splits)
  have "files w1 name = Some (c @ t)" using step by simp
  from Cons.IH[OF this] step show ?case by (auto simp: w1_def t_def fun_eq_iff)
qed

lemma generateInventory_text:
  assumes "fault e Create (calls w Create) = None"
      and "fault e Write (calls w Write + length (inventoryWrites i ns a)) = None"
  shows "fst (generateInventory e w i ns a) = Inr (InventoryFilePattern (fst (unique e w)))
         \<and> files (snd (generateInventory e w i ns a))
             = (files w)(InventoryFilePattern (fst (unique e w)) \<mapsto>
                  writtenText e (calls w Write) (inventoryWrites i ns a) @ inventoryLastWrite)"
proof -
  obtain u w0 where u: "unique e w = (u, w0)" by force
  note f0 = unique_files[OF u]
  define path where "path = InventoryFilePattern u"
  define w1 where "w1 = snd (osCreate e w0 path)"
  have c: "osCreate e w0 path = (None, w1)"
    using assms(1) f0 by (simp add: w1_def osCreate_def Let_def)
  have f1: "files w1 = (files w)(path \<mapsto> [])" "calls w1 Write = calls w Write"
    using assms(1) f0 by (simp_all add: w1_def osCreate_def Let_def tick_def record_event_def)
  define w2 where "w2 = WriteStrings e w1 path (inventoryWrites i ns a)"
  have f2: "files w2 = (files w)(path \<mapsto> writtenText e (calls w Write) (inventoryWrites i ns a))"
           "calls w2 Write = calls w Write + length (inventoryWrites i ns a)"
    using WriteStrings_text[of w1 path "[]" e "inventoryWrites i ns a"] f1
    by (simp_all add: w2_def)
  have l: "WriteString e w2 path inventoryLastWrite
             = (None, tick Write (w2\<lparr>files := (files w2)(path \<mapsto>
                   writtenText e (calls w Write) (inventoryWrites i ns a) @ inventoryLastWrite)\<rparr>))"
    using assms(2) f2 by (simp add: WriteString_def)
  show ?thesis
    using u c l f2
    by (auto simp: generateInventory_def Let_def path_def[symmetric] w2_def[symmetric] tick_def)
qed

lemma calmEnv_unique: "fst (unique calmEnv w) = ''0102030405''"
  by (simp add: unique_def calmEnv_def hexBytes_def hexDigit_def)

lemma droppedWriteEnv_unique: "fst (unique droppedWriteEnv w) = ''0102030405''"
  by (simp add: unique_def droppedWriteEnv_def calmEnv_def hexBytes_def hexDigit_def)

subsection \<open>Outcomes of the status reporter do not reach the pass\<close>

lemma envAgree_withStatusFaults: "envAgree e (withStatusFaults g u n0 e)"
  by (simp add: envAgree_def withStatusFaults_def fun_eq_iff)

lemma sameOutside_refl: "sameOutside w w"
  by (simp add: sameOutside_def)

lemma unique_rel:
  assumes "envAgree e e'" and "sameOutside w w'"
  shows "fst (unique e' w') = fst (unique e w)
         \<and> sameOutside (snd (unique e w)) (snd (unique e' w'))"
  using assms
  by (auto simp: unique_def envAgree_def sameOutside_def tick_def split: option.splits if_splits)

lemma tick_rel: "k \<noteq> Update \<Longrightarrow> sameOutside w w' \<Longrightarrow> sameOutside (tick k w) (tick k w')"
  by (simp add: sameOutside_def tick_def)

lemma runCommand_rel:
  assumes "envAgree e e'" and "sameOutside w w'"
  shows "fst (runCommand e' w' c a v an) = fst (runCommand e w c a v an)
         \<and> sameOutside (snd (runCommand e w c a v an)) (snd (runCommand e' w' c a v an))"
  using assms
  by (auto simp: runCommand_def envAgree_def sameOutside_def tick_def record_event_def Let_def
           split: procOutcome.splits)

lemma removeFile_rel:
  assumes "envAgree e e'" and "sameOutside w w'"
  shows "sameOutside (removeFile e w name) (removeFile e' w' name)"
  using assms
  by (auto simp: removeFile_def envAgree_def sameOutside_def tick_def record_event_def Let_def
           split: option.splits)

lemma osCreate_rel:
  assumes "envAgree e e'" and "sameOutside w w'"
  shows "fst (osCreate e' w' name) = fst (osCreate e w name)
         \<and> sameOutside (snd (osCreate e w name)) (snd (osCreate e' w' name))"
  using assms
  by (auto simp: osCreate_def envAgree_def sameOutside_def tick_def record_event_def Let_def
           split: option.splits)

lemma WriteString_rel:
  assumes "envAgree e e'" and "sameOutside w w'"
  shows "fst (WriteString e' w' name s) = fst (WriteString e w name s)
         \<and> sameOutside (snd (WriteString e w name s)) (snd (WriteString e' w' name s))"
  using assms
  by (auto simp: WriteString_def envAgree_def sameOutside_def tick_def split: option.splits)

lemma WriteStrings_rel:
  assumes "envAgree e e'"
  shows "sameOutside w w' \<Longrightarrow> sameOutside (WriteStrings e w name ss) (WriteStrings e' w' name ss)"
proof (induction ss arbitrary: w w')
  case Nil
  then show ?case by simp
next
  case (Cons s ss)
  from WriteString_rel[OF assms Cons.prems, of name s]
  have "sameOutside (snd (WriteString e w name s)) (snd (WriteString e' w' name s))" by simp
  from Cons.IH[OF this] show ?case by simp
qed

lemma clientGetDeployment_rel:
  assumes "envAgree e e'" and "sameOutside w w'"
  shows "fst (clientGetDeployment e' w' name) = fst (clientGetDeployment e w name)
         \<and> sameOutside (snd (clientGetDeployment e w name)) (snd (clientGetDeployment e' w' name))"
  using assms
  by (auto simp: clientGetDeployment_def envAgree_def sameOutside_def tick_def
           split: option.splits)

lemma updateStatus_rel:
  assumes "sameOutside w w'"
  shows "sameOutside (updateStatus e w r p m) (updateStatus e' w' r p m)"
  using assms
  by (auto simp: updateStatus_def clientGetKWebUI_def clientUpdate_def sameOutside_def tick_def
                 record_event_def
           split: option.splits)


lemma loginClient_rel:
  assumes ea: "envAgree e e'" and so: "sameOutside w w'"
  shows "fst (loginClient e' w' ns) = fst (loginClient e w ns)
         \<and> sameOutside (snd (loginClient e w ns)) (snd (loginClient e' w' ns))"
proof -
  have cfg: "inClusterConfig e' (calls w' InClusterConfig) = inClusterConfig e (calls w InClusterConfig)"
    using ea so by (simp add: envAgree_def sameOutside_def)
  have t: "sameOutside (tick InClusterConfig w) (tick InClusterConfig w')"
    using tick_rel so by simp
  show ?thesis
  proof (cases "inClusterConfig e (calls w InClusterConfig)")
    case (Inl err)
    then show ?thesis using cfg t by (simp add: loginClient_def)
  next
    case (Inr config)
    obtain u w1 where U: "unique e (tick InClusterConfig w) = (u, w1)" by force
    obtain u' w1' where U': "unique e' (tick InClusterConfig w') = (u', w1')" by force
    from unique_rel[OF ea t] U U' have u: "u' = u" "sameOutside w1 w1'" by simp_all
    have rcA: "fst (runCommand e' w1' c a v an) = fst (runCommand e w1 c a v an)"
      and soA: "sameOutside (snd (runCommand e w1 c a v an)) (snd (runCommand e' w1' c a v an))"
      for c a v an
      using runCommand_rel[OF ea u(2), of c a v an] by simp_all
    have rcB: "fst (runCommand e' (snd (runCommand e' w1' c a v an)) c2 a2 v2 an2)
                 = fst (runCommand e (snd (runCommand e w1 c a v an)) c2 a2 v2 an2)"
      and soB: "sameOutside (snd (runCommand e (snd (runCommand e w1 c a v an)) c2 a2 v2 an2))
                            (snd (runCommand e' (snd (runCommand e' w1' c a v an)) c2 a2 v2 an2))"
      for c a v an c2 a2 v2 an2
      using runCommand_rel[OF ea soA, of c a v an c2 a2 v2 an2] by simp_all
    show ?thesis
      using Inr cfg U U' u
      by (simp add: loginClient_def Let_def prod.case_eq_if option.case_eq_if rcA soA rcB soB)
  qed
qed

lemma generateInventory_rel:
  assumes ea: "envAgree e e'" and so: "sameOutside w w'"
  shows "fst (generateInventory e' w' i ns a) = fst (generateInventory e w i ns a)
         \<and> sameOutside (snd (generateInventory e w i ns a)) (snd (generateInventory e' w' i ns a))"
proof -
  obtain u w0 where U: "unique e w = (u, w0)" by force
  obtain u' w0' where U': "unique e' w' = (u', w0')" by force
  from unique_rel[OF ea so] U U' have u: "u' = u" "sameOutside w0 w0'" by simp_all
  define path where "path = InventoryFilePattern u"
  obtain r1 w1 where C: "osCreate e w0 path = (r1, w1)" by force
  obtain r1' w1' where C': "osCreate e' w0' path = (r1', w1')" by force
  from osCreate_rel[OF ea u(2), of path] C C' have c: "r1' = r1" "sameOutside w1 w1'" by simp_all
  define ws where "ws = inventoryWrites i ns a"
  have many: "sameOutside (WriteStrings e w1 path ws) (WriteStrings e' w1' path ws)"
    using WriteStrings_rel[OF ea c(2)] .
  obtain r2 w2 where L: "WriteString e (WriteStrings e w1 path ws) path inventoryLastWrite = (r2, w2)"
    by force
  obtain r2' w2' where
    L': "WriteString e' (WriteStrings e' w1' path ws) path inventoryLastWrite = (r2', w2')"
    by force
  from WriteString_rel[OF ea many, of path inventoryLastWrite] L L'
  have l: "r2' = r2" "sameOutside w2 w2'" by simp_all
  show ?thesis
    using U U' u C C' c L L' l
    by (simp add: generateInventory_def Let_def path_def[symmetric] ws_def[symmetric]
             split: option.splits)
qed

lemma runPlaybook_rel:
  assumes "envAgree e e'" and "sameOutside w w'"
  shows "fst (runPlaybook e' w' ifile cfile) = fst (runPlaybook e w ifile cfile)
         \<and> sameOutside (snd (runPlaybook e w ifile cfile)) (snd (runPlaybook e' w' ifile cfile))"
  using runCommand_rel[OF assms] by (simp add: runPlaybook_def Let_def)

lemma runPlaybookWithSetup_rel:
  assumes ea: "envAgree e e'" and so: "sameOutside w w'"
  shows "fst (runPlaybookWithSetup e' w' ns i a) = fst (runPlaybookWithSetup e w ns i a)
         \<and> sameOutside (snd (runPlaybookWithSetup e w ns i a))
                        (snd (runPlaybookWithSetup e' w' ns i a))"
proof -
  obtain r1 w1 where L: "loginClient e w ns = (r1, w1)" by force
  obtain r1' w1' where L': "loginClient e' w' ns = (r1', w1')" by force
  from loginClient_rel[OF ea so, of ns] L L' have l: "r1' = r1" "sameOutside w1 w1'" by simp_all
  show ?thesis
  proof (cases r1)
    case (Inl err)
    then show ?thesis using L L' l by (simp add: runPlaybookWithSetup_def)
  next
    case cfg: (Inr cfile)
    obtain r2 w2 where G: "generateInventory e w1 i ns a = (r2, w2)" by force
    obtain r2' w2' where G': "generateInventory e' w1' i ns a = (r2', w2')" by force
    from generateInventory_rel[OF ea l(2), of i ns a] G G'
    have g: "r2' = r2" "sameOutside w2 w2'" by simp_all
    show ?thesis
    proof (cases r2)
      case (Inl err)
      then show ?thesis
        using cfg L L' l G G' g removeFile_rel[OF ea g(2), of cfile]
        by (simp add: runPlaybookWithSetup_def)
    next
      case (Inr ifile)
      obtain r3 w3 where P: "runPlaybook e w2 ifile cfile = (r3, w3)" by force
      obtain r3' w3' where P': "runPlaybook e' w2' ifile cfile = (r3', w3')" by force
      from runPlaybook_rel[OF ea g(2), of ifile cfile] P P'
      have p: "r3' = r3" "sameOutside w3 w3'" by simp_all
      show ?thesis
        using cfg Inr L L' l G G' g P P' p
              removeFile_rel[OF ea removeFile_rel[OF ea p(2), of ifile], of cfile]
        by (simp add: runPlaybookWithSetup_def)
    qed
  qed
qed

lemma setOwnerReference_rel:
  assumes ea: "envAgree e e'" and so: "sameOutside w w'"
  shows "fst (setOwnerReference e' w' r i) = fst (setOwnerReference e w r i)
         \<and> sameOutside (snd (setOwnerReference e w r i)) (snd (setOwnerReference e' w' r i))"
proof -
  define name where "name = \<lparr>Namespace = Namespace r, Name = ''console''\<rparr>"
  obtain r1 w1 where G: "clientGetDeployment e w name = (r1, w1)" by force
  obtain r1' w1' where G': "clientGetDeployment e' w' name = (r1', w1')" by force
  from clientGetDeployment_rel[OF ea so, of name] G G'
  have g: "r1' = r1" "sameOutside w1 w1'" by simp_all
  show ?thesis
    using G G' g updateStatus_rel[OF g(2)]
    by (simp add: setOwnerReference_def name_def[symmetric] split: sum.splits prod.splits)
qed

lemma freshProvision_rel:
  assumes ea: "envAgree e e'" and so: "sameOutside w w'"
  shows "fst (freshProvision e' w' r i) = fst (freshProvision e w r i)
         \<and> sameOutside (snd (freshProvision e w r i)) (snd (freshProvision e' w' r i))"
proof (cases "Version (Spec i) = []")
  case True
  then show ?thesis using updateStatus_rel[OF so] by (simp add: freshProvision_def)
next
  case False
  let ?m = "''Target version: '' @ Version (Spec i)"
  have s1: "sameOutside (updateStatus e w r PhaseFreshProvision ?m)
                        (updateStatus e' w' r PhaseFreshProvision ?m)"
    using updateStatus_rel[OF so] .
  obtain res err w2 where
    P: "runPlaybookWithSetup e (updateStatus e w r PhaseFreshProvision ?m) (Namespace r) i
          ''provision'' = ((res, err), w2)"
    by (metis surj_pair)
  obtain res' err' w2' where
    P': "runPlaybookWithSetup e' (updateStatus e' w' r PhaseFreshProvision ?m) (Namespace r) i
           ''provision'' = ((res', err'), w2')"
    by (metis surj_pair)
  from runPlaybookWithSetup_rel[OF ea s1, of "Namespace r" i "''provision''"] P P'
  have p: "res' = res" "err' = err" "sameOutside w2 w2'" by simp_all
  have link: "sameOutside (snd (setOwnerReference e w2 r i)) (snd (setOwnerReference e' w2' r i))"
    using setOwnerReference_rel[OF ea p(3)] by simp
  show ?thesis
    using False P P' p updateStatus_rel[OF link] updateStatus_rel[OF p(3)]
    by (simp add: freshProvision_def)
qed

lemma deprovision_rel:
  assumes ea: "envAgree e e'" and so: "sameOutside w w'"
  shows "fst (deprovision e' w' r i) = fst (deprovision e w r i)
         \<and> sameOutside (snd (deprovision e w r i)) (snd (deprovision e' w' r i))"
proof -
  have s1: "sameOutside (updateStatus e w r PhaseDeprovision [])
                        (updateStatus e' w' r PhaseDeprovision [])"
    using updateStatus_rel[OF so] .
  obtain res err w2 where
    P: "runPlaybookWithSetup e (updateStatus e w r PhaseDeprovision []) (Namespace r) i
          ''deprovision'' = ((res, err), w2)"
    by (metis surj_pair)
  obtain res' err' w2' where
    P': "runPlaybookWithSetup e' (updateStatus e' w' r PhaseDeprovision []) (Namespace r) i
           ''deprovision'' = ((res', err'), w2')"
    by (metis surj_pair)
  from runPlaybookWithSetup_rel[OF ea s1, of "Namespace r" i "''deprovision''"] P P'
  have p: "res' = res" "err' = err" "sameOutside w2 w2'" by simp_all
  show ?thesis
    using P P' p updateStatus_rel[OF p(3)]
    by (simp add: deprovision_def)
qed

lemma reconcileExistingDeployment_rel:
  assumes ea: "envAgree e e'" and so: "sameOutside w w'"
  shows "fst (reconcileExistingDeployment e' w' r i d) = fst (reconcileExistingDeployment e w r i d)
         \<and> sameOutside (snd (reconcileExistingDeployment e w r i d))
                        (snd (reconcileExistingDeployment e' w' r i d))"
proof -
  obtain res err w1 where D: "deprovision e w r i = ((res, err), w1)" by (metis surj_pair)
  obtain res' err' w1' where D': "deprovision e' w' r i = ((res', err'), w1')" by (metis surj_pair)
  from deprovision_rel[OF ea so, of r i] D D'
  have d: "res' = res" "err' = err" "sameOutside w1 w1'" by simp_all
  show ?thesis
    using so D D' d updateStatus_rel[OF so] freshProvision_rel[OF ea d(3), of r i]
    by (simp add: reconcileExistingDeployment_def split: sum.splits)
qed

lemma Reconcile_rel:
  "fst (Reconcile (withStatusFaults g u (calls w GetKWebUI) e) w r) = fst (Reconcile e w r)
   \<and> sameOutside (snd (Reconcile e w r))
                  (snd (Reconcile (withStatusFaults g u (calls w GetKWebUI) e) w r))"
proof -
  define e' where "e' = withStatusFaults g u (calls w GetKWebUI) e"
  have ea: "envAgree e e'" unfolding e'_def by (rule envAgree_withStatusFaults)
  have first: "clientGetKWebUI e' w r = clientGetKWebUI e w r"
    by (simp add: clientGetKWebUI_def e'_def withStatusFaults_def)
  obtain r0 w0 where G0: "clientGetKWebUI e w r = (r0, w0)" by force
  define name where "name = \<lparr>Namespace = Namespace r, Name = ''console''\<rparr>"
  obtain r1 w1 where G: "clientGetDeployment e w0 name = (r1, w1)" by force
  obtain r1' w1' where G': "clientGetDeployment e' w0 name = (r1', w1')" by force
  from clientGetDeployment_rel[OF ea sameOutside_refl, of w0 name] G G'
  have g: "r1' = r1" "sameOutside w1 w1'" by simp_all
  have ?thesis if "r0 = Inl err" for err
    using that first G0 by (simp add: Reconcile_def e'_def[symmetric] sameOutside_refl)
  moreover have ?thesis if "r0 = Inr i" for i
    using that first G0 G G' g updateStatus_rel[OF g(2)]
          freshProvision_rel[OF ea g(2), of r i]
          reconcileExistingDeployment_rel[OF ea g(2), of r i]
    by (simp add: Reconcile_def e'_def[symmetric] name_def[symmetric] split: sum.splits)
  ultimately show ?thesis by (cases r0) auto
qed



lemma updateStatus_calls_GetKWebUI:
  "calls (updateStatus e w r p m) GetKWebUI = Suc (calls w GetKWebUI)"
  by (simp add: updateStatus_def clientGetKWebUI_def clientUpdate_def tick_def record_event_def
           split: option.splits)


lemma calmEnv_fresh_pass:
  "fst (Reconcile calmEnv (sampleWorld ''v1.4'') sampleRequest) = (emptyResult, None)"
proof -
  define W where "W = tick GetDeployment (tick GetKWebUI (sampleWorld ''v1.4''))"
  define I where "I = sampleKWebUI ''v1.4''"
  have entry: "Reconcile calmEnv (sampleWorld ''v1.4'') sampleRequest
                 = freshProvision calmEnv W sampleRequest I"
    by (simp add: Reconcile_def clientGetKWebUI_def clientGetDeployment_def calmEnv_def
                  sampleWorld_def IsNotFound_def tick_def W_def I_def)
  have v: "Version (Spec I) \<noteq> []" by (simp add: I_def sampleKWebUI_def)
  define w1 where "w1 = updateStatus calmEnv W sampleRequest PhaseFreshProvision
                          (''Target version: '' @ Version (Spec I))"
  have run: "runPlaybookWithSetup calmEnv w1 (Namespace sampleRequest) I ''provision''
               = ((emptyResult, None),
                  snd (runPlaybookWithSetup calmEnv w1 (Namespace sampleRequest) I ''provision''))"
    using runPlaybookWithSetup_succeeds[OF calmEnv_reliable, of w1 "Namespace sampleRequest" I
            "''provision''"]
    by (simp add: prod_eq_iff)
  show ?thesis
    using entry freshProvision_unfold[OF v run[unfolded w1_def]] by simp
qed


section \<open>The decision on an existing Deployment\<close>

text \<open>
  C7: when the first container named \<^verbatim>\<open>console\<close> has an image whose tag (the text
  after the last colon) is present but empty once the leading \<^verbatim>\<open>v\<close> is stripped, the
  pass returns the error \<^verbatim>\<open>failed to read existing image tag\<close> and leaves the world as
  it found it: no status write, no other call.
\<close>

theorem empty_tag_after_strip_error:
  assumes "Containers deployment = pre @ c # post"
      and "list_all (\<lambda>c. ContainerName c \<noteq> WebUIContainerName) pre"
      and "ContainerName c = WebUIContainerName"
      and "afterLast (Image c) '':'' \<noteq> []"
      and "TrimPrefix (afterLast (Image c) '':'') ''v'' = []"
  shows "reconcileExistingDeployment e w request instance deployment
           = ((emptyResult, Some (ErrorString ''failed to read existing image tag'')), w)"
  using assms
  by (simp add: reconcileExistingDeployment_def existingVersionOf_skip)

theorem empty_tag_after_strip_error_witness:
  "afterLast ''quay.io/kubevirt/kubevirt-web-ui:v'' '':'' = ''v''
   \<and> TrimPrefix ''v'' ''v'' = []
   \<and> reconcileExistingDeployment calmEnv (sampleWorld ''v1.4'') sampleRequest (sampleKWebUI ''v1.4'')
         (consoleDeployment ''quay.io/kubevirt/kubevirt-web-ui:v'')
       = ((emptyResult, Some (ErrorString ''failed to read existing image tag'')),
          sampleWorld ''v1.4'')"
proof -
  have tag: "afterLast ''quay.io/kubevirt/kubevirt-web-ui:v'' '':'' = ''v''"
    by (simp add: afterLast_def LastIndex_def)
  have strip: "TrimPrefix ''v'' ''v'' = []"
    by (simp add: TrimPrefix_def)
  show ?thesis
    using empty_tag_after_strip_error
            [of "consoleDeployment ''quay.io/kubevirt/kubevirt-web-ui:v''" "[]"
                "\<lparr>ContainerName = ''console'', Image = ''quay.io/kubevirt/kubevirt-web-ui:v''\<rparr>"
                "[]" calmEnv "sampleWorld ''v1.4''" sampleRequest "sampleKWebUI ''v1.4''"]
          tag strip
    by (simp add: consoleDeployment_def WebUIContainerName_def)
qed

text \<open>
  C2 (as amended): when no container of the Deployment is named \<^verbatim>\<open>console\<close>, the
  pass ends without error and without a retry request after one call of the status
  reporter with phase \<^verbatim>\<open>OTHER_ERROR\<close>, and that phase is stored whenever the
  reporter's fetch and update go through.  When the image reference of the first
  \<^verbatim>\<open>console\<close> container contains no colon or ends in a colon, the pass returns the
  error \<^verbatim>\<open>failed to read existing image tag\<close> instead and leaves the world untouched.
\<close>

theorem no_console_container_terminal:
  "(list_all (\<lambda>c. ContainerName c \<noteq> WebUIContainerName) (Containers deployment)
      \<longrightarrow> fst (reconcileExistingDeployment e w request instance deployment) = (emptyResult, None)
          \<and> events (snd (reconcileExistingDeployment e w request instance deployment))
              = events w @ [EvUpdateStatus request PhaseOtherError
                              ''Can not read deployed container version.''])
   \<and> (list_all (\<lambda>c. ContainerName c \<noteq> WebUIContainerName) (Containers deployment)
        \<and> fault e GetKWebUI (calls w GetKWebUI) = None
        \<and> fault e Update (calls w Update) = None
        \<and> kwebuis w request = Some stored
      \<longrightarrow> kwebuis (snd (reconcileExistingDeployment e w request instance deployment)) request
            = Some (stored\<lparr>Status := (Status stored)\<lparr>Phase := PhaseOtherError,
                       Message := ''Can not read deployed container version.''\<rparr>\<rparr>))
   \<and> (Containers untagged = pre @ c # post
        \<and> list_all (\<lambda>c. ContainerName c \<noteq> WebUIContainerName) pre
        \<and> ContainerName c = WebUIContainerName
        \<and> (CHR '':'' \<notin> set (Image c) \<or> (Image c \<noteq> [] \<and> last (Image c) = CHR '':''))
      \<longrightarrow> reconcileExistingDeployment e w request instance untagged
            = ((emptyResult, Some (ErrorString ''failed to read existing image tag'')), w))"
proof -
  have tag: "CHR '':'' \<notin> set (Image c) \<or> (Image c \<noteq> [] \<and> last (Image c) = CHR '':'')
               \<Longrightarrow> afterLast (Image c) '':'' = []"
    using afterLast_empty_iff[of "Image c" "CHR '':''"] by simp
  show ?thesis
    using tag
    by (auto simp: reconcileExistingDeployment_def existingVersionOf_none existingVersionOf_skip
                   updateStatus_events updateStatus_stored TrimPrefix_def)
qed

theorem no_console_container_terminal_witness:
  "fst (reconcileExistingDeployment calmEnv (sampleWorld ''v1.4'') sampleRequest
          (sampleKWebUI ''v1.4'')
          \<lparr>Containers = [\<lparr>ContainerName = ''proxy'', Image = ''quay.io/kubevirt/proxy:v1.4''\<rparr>],
             OwnerReferences = []\<rparr>)
     = (emptyResult, None)
   \<and> kwebuis (snd (reconcileExistingDeployment calmEnv (sampleWorld ''v1.4'') sampleRequest
          (sampleKWebUI ''v1.4'')
          \<lparr>Containers = [\<lparr>ContainerName = ''proxy'', Image = ''quay.io/kubevirt/proxy:v1.4''\<rparr>],
             OwnerReferences = []\<rparr>)) sampleRequest
       = Some ((sampleKWebUI ''v1.4'')
                 \<lparr>Status := \<lparr>Phase = ''OTHER_ERROR'',
                              Message = ''Can not read deployed container version.''\<rparr>\<rparr>)
   \<and> last ''quay.io/kubevirt/kubevirt-web-ui:'' = CHR '':''
   \<and> reconcileExistingDeployment calmEnv (sampleWorld ''v1.4'') sampleRequest
          (sampleKWebUI ''v1.4'') (consoleDeployment ''quay.io/kubevirt/kubevirt-web-ui:'')
       = ((emptyResult, Some (ErrorString ''failed to read existing image tag'')),
          sampleWorld ''v1.4'')"
proof -
  have tag: "last ''quay.io/kubevirt/kubevirt-web-ui:'' = CHR '':''"
    by simp
  show ?thesis
    using no_console_container_terminal
            [of "\<lparr>Containers = [\<lparr>ContainerName = ''proxy'',
                                   Image = ''quay.io/kubevirt/proxy:v1.4''\<rparr>],
                   OwnerReferences = []\<rparr>"
                calmEnv "sampleWorld ''v1.4''" sampleRequest "sampleKWebUI ''v1.4''"
                "sampleKWebUI ''v1.4''"
                "consoleDeployment ''quay.io/kubevirt/kubevirt-web-ui:''" "[]"
                "\<lparr>ContainerName = ''console'', Image = ''quay.io/kubevirt/kubevirt-web-ui:''\<rparr>"
                "[]"]
          tag
    by (simp add: consoleDeployment_def WebUIContainerName_def calmEnv_def sampleWorld_def
                  sampleKWebUI_def PhaseOtherError_def)
qed


text \<open>
  The claim as stated fails for the image reference \<^verbatim>\<open>quay.io/kubevirt/kubevirt-web-ui\<close>,
  which carries no tag: the pass returns an error and the status reporter is never called.
\<close>

theorem untagged_image_counterexample:
  "fst (reconcileExistingDeployment calmEnv (sampleWorld ''v1.4'') sampleRequest
          (sampleKWebUI ''v1.4'') (consoleDeployment ''quay.io/kubevirt/kubevirt-web-ui''))
     = (emptyResult, Some (ErrorString ''failed to read existing image tag''))
   \<and> snd (reconcileExistingDeployment calmEnv (sampleWorld ''v1.4'') sampleRequest
          (sampleKWebUI ''v1.4'') (consoleDeployment ''quay.io/kubevirt/kubevirt-web-ui''))
     = sampleWorld ''v1.4''
   \<and> statusWrites (events (sampleWorld ''v1.4'')) = []"
  by (simp add: reconcileExistingDeployment_def consoleDeployment_def WebUIContainerName_def
                afterLast_def LastIndex_def TrimPrefix_def sampleWorld_def)


text \<open>
  C1: the comparison strips the leading \<^verbatim>\<open>v\<close> from the deployed tag only.  With the
  desired version \<^verbatim>\<open>v1.4\<close> and the deployed image tag \<^verbatim>\<open>v1.4\<close> the pass is not a
  no-op: in every environment its first status write is \<^verbatim>\<open>DEPROVISION_STARTED\<close>.
  The no-op is reached with the desired version written \<^verbatim>\<open>1.4\<close>.
\<close>

theorem v_prefixed_desired_version_redeploys:
  "existingVersionOf (Containers (consoleDeployment ''quay.io/kubevirt/kubevirt-web-ui:v1.4''))
     = Inr ''1.4''
   \<and> prefix (statusWrites (events w) @ [(''DEPROVISION_STARTED'', [])])
       (statusWrites (events (snd (reconcileExistingDeployment e w request (sampleKWebUI ''v1.4'')
          (consoleDeployment ''quay.io/kubevirt/kubevirt-web-ui:v1.4'')))))
   \<and> fst (reconcileExistingDeployment e w request (sampleKWebUI ''1.4'')
          (consoleDeployment ''quay.io/kubevirt/kubevirt-web-ui:v1.4'')) = (emptyResult, None)
   \<and> statusWrites (events (snd (reconcileExistingDeployment e w request (sampleKWebUI ''1.4'')
          (consoleDeployment ''quay.io/kubevirt/kubevirt-web-ui:v1.4''))))
       = statusWrites (events w)
         @ [(''PROVISIONED'', ''Existing version conform the requested one: 1.4. Nothing to do.'')]"
proof -
  have ex: "existingVersionOf (Containers (consoleDeployment ''quay.io/kubevirt/kubevirt-web-ui:v1.4''))
              = Inr ''1.4''"
    by (simp add: consoleDeployment_def WebUIContainerName_def afterLast_def LastIndex_def
                  TrimPrefix_def)
  obtain dres derr w1 where d: "deprovision e w request (sampleKWebUI ''v1.4'') = ((dres, derr), w1)"
    by (metis surj_pair)
  have sw1: "prefix (statusWrites (events w) @ [(PhaseDeprovision, [])]) (statusWrites (events w1))"
    using deprovision_statusWrites[OF d] by simp
  have "prefix (statusWrites (events w1))
          (statusWrites (events (snd (freshProvision e w1 request (sampleKWebUI ''v1.4'')))))"
    using freshProvision_statusWrites_prefix[of "sampleKWebUI ''v1.4''" w1 e request]
    by (simp add: sampleKWebUI_def append_prefixD)
  with sw1 have sw2: "prefix (statusWrites (events w) @ [(PhaseDeprovision, [])])
          (statusWrites (events (snd (freshProvision e w1 request (sampleKWebUI ''v1.4'')))))"
    using prefix_order.trans by blast
  have redeploy: "prefix (statusWrites (events w) @ [(PhaseDeprovision, [])])
       (statusWrites (events (snd (reconcileExistingDeployment e w request (sampleKWebUI ''v1.4'')
          (consoleDeployment ''quay.io/kubevirt/kubevirt-web-ui:v1.4'')))))"
    using ex d sw1 sw2
    by (simp add: reconcileExistingDeployment_def sampleKWebUI_def)
  have noop: "reconcileExistingDeployment e w request (sampleKWebUI ''1.4'')
                (consoleDeployment ''quay.io/kubevirt/kubevirt-web-ui:v1.4'')
              = ((emptyResult, None),
                 updateStatus e w request PhaseProvisioned
                   ''Existing version conform the requested one: 1.4. Nothing to do.'')"
    using ex by (simp add: reconcileExistingDeployment_def sampleKWebUI_def)
  show ?thesis
    using ex redeploy noop
    by (simp add: updateStatus_events statusWrites_append PhaseDeprovision_def
                  PhaseProvisioned_def)
qed

section \<open>The provision path\<close>

text \<open>
  C10 (as amended): when the provisioning workflow of a fresh provision returns no error,
  the pass returns no error either, whatever the ownership link returns; the calls of the
  status reporter in the pass are \<^verbatim>\<open>PROVISION_STARTED\<close>, then
  \<^verbatim>\<open>OWNER_REFERENCE_FAILED\<close> if the link failed, then \<^verbatim>\<open>PROVISIONED\<close>; and
  \<^verbatim>\<open>PROVISIONED\<close> is the phase stored at the end of the pass when the fetch and the
  update of that last call go through.
\<close>

theorem provisioned_after_link_failure:
  assumes "Version (Spec instance) \<noteq> []"
      and "runPlaybookWithSetup e
             (updateStatus e w request PhaseFreshProvision
                (''Target version: '' @ Version (Spec instance)))
             (Namespace request) instance ''provision'' = ((res, None), w2)"
      and "setOwnerReference e w2 request instance = (lerr, w3)"
  shows "fst (freshProvision e w request instance) = (emptyResult, None)
       \<and> statusWrites (events (snd (freshProvision e w request instance)))
           = statusWrites (events w)
             @ [(PhaseFreshProvision, ''Target version: '' @ Version (Spec instance))]
             @ (if lerr = None then []
                else [(PhaseOwnerReferenceFailed,
                       ''Failed to retrieve the just created kubevirt-web-ui Deployment object to set owner reference.'')])
             @ [(PhaseProvisioned, ''Provision finished.'')]
       \<and> (fault e GetKWebUI (calls w3 GetKWebUI) = None
            \<and> fault e Update (calls w3 Update) = None
            \<and> kwebuis w3 request = Some stored
          \<longrightarrow> kwebuis (snd (freshProvision e w request instance)) request
                = Some (stored\<lparr>Status := \<lparr>Phase = PhaseProvisioned,
                                          Message = ''Provision finished.''\<rparr>\<rparr>))"
proof -
  have fp: "freshProvision e w request instance
              = ((emptyResult, None), updateStatus e w3 request PhaseProvisioned ''Provision finished.'')"
    using freshProvision_unfold[OF assms(1,2)] assms(3) by simp
  have sw2: "statusWrites (events w2)
               = statusWrites (events w)
                 @ [(PhaseFreshProvision, ''Target version: '' @ Version (Spec instance))]"
    using runPlaybookWithSetup_statusWrites[OF assms(2)]
    by (simp add: updateStatus_events statusWrites_append)
  have sw3: "statusWrites (events w3)
               = statusWrites (events w2)
                 @ (if lerr = None then []
                    else [(PhaseOwnerReferenceFailed,
                           ''Failed to retrieve the just created kubevirt-web-ui Deployment object to set owner reference.'')])"
    using setOwnerReference_statusWrites[OF assms(3)] .
  show ?thesis
    using fp sw2 sw3
    by (auto simp: updateStatus_events statusWrites_append updateStatus_stored
                   status_update_collapse)
qed

theorem provisioned_after_link_failure_witness:
  "fst (freshProvision linkFailEnv (tick GetDeployment (sampleWorld ''v1.4'')) sampleRequest
          (sampleKWebUI ''v1.4'')) = (emptyResult, None)
   \<and> statusWrites (events (snd (freshProvision linkFailEnv (tick GetDeployment (sampleWorld ''v1.4''))
                                   sampleRequest (sampleKWebUI ''v1.4''))))
       = [(''PROVISION_STARTED'', ''Target version: v1.4''),
          (''OWNER_REFERENCE_FAILED'',
           ''Failed to retrieve the just created kubevirt-web-ui Deployment object to set owner reference.''),
          (''PROVISIONED'', ''Provision finished.'')]
   \<and> kwebuis (snd (freshProvision linkFailEnv (tick GetDeployment (sampleWorld ''v1.4''))
                      sampleRequest (sampleKWebUI ''v1.4''))) sampleRequest
       = Some ((sampleKWebUI ''v1.4'')
                 \<lparr>Status := \<lparr>Phase = ''PROVISIONED'', Message = ''Provision finished.''\<rparr>\<rparr>)"
proof -
  define W where "W = tick GetDeployment (sampleWorld ''v1.4'')"
  define I where "I = sampleKWebUI ''v1.4''"
  have c: "0 < calls W GetDeployment" by (simp add: W_def tick_def)
  have k: "kwebuis W sampleRequest = Some I" by (simp add: W_def I_def tick_def sampleWorld_def)
  have v: "Version (Spec I) = ''v1.4''" by (simp add: I_def sampleKWebUI_def)
  have ev: "events W = []" by (simp add: W_def tick_def sampleWorld_def)
  obtain w2 where
    run: "runPlaybookWithSetup linkFailEnv
            (updateStatus linkFailEnv W sampleRequest PhaseFreshProvision
               (''Target version: '' @ Version (Spec I)))
            (Namespace sampleRequest) I ''provision'' = ((emptyResult, None), w2)"
    and link: "setOwnerReference linkFailEnv w2 sampleRequest I
                 = (Some (ApiError ''etcdserver: request timed out''),
                    updateStatus linkFailEnv (tick GetDeployment w2) sampleRequest
                      PhaseOwnerReferenceFailed
                      ''Failed to retrieve the just created kubevirt-web-ui Deployment object to set owner reference.'')"
    and k2: "kwebuis (tick GetDeployment w2) sampleRequest
               = Some (I\<lparr>Status := \<lparr>Phase = PhaseFreshProvision,
                                      Message = ''Target version: '' @ Version (Spec I)\<rparr>\<rparr>)"
    using linkFailEnv_provision[OF c k] by blast
  have k3: "kwebuis (updateStatus linkFailEnv (tick GetDeployment w2) sampleRequest
                       PhaseOwnerReferenceFailed
                       ''Failed to retrieve the just created kubevirt-web-ui Deployment object to set owner reference.'')
              sampleRequest
            = Some (I\<lparr>Status := \<lparr>Phase = PhaseOwnerReferenceFailed,
                Message = ''Failed to retrieve the just created kubevirt-web-ui Deployment object to set owner reference.''\<rparr>\<rparr>)"
    using updateStatus_reliable[OF linkFailEnv_faults(1,2) k2] by simp
  have nonempty: "Version (Spec I) \<noteq> []" using v by simp
  show ?thesis
    using provisioned_after_link_failure[OF nonempty run link, of
            "I\<lparr>Status := \<lparr>Phase = PhaseOwnerReferenceFailed,
                Message = ''Failed to retrieve the just created kubevirt-web-ui Deployment object to set owner reference.''\<rparr>\<rparr>"]
          k3 linkFailEnv_faults(1,2) v ev
    by (simp add: W_def[symmetric] I_def[symmetric] PhaseFreshProvision_def
                  PhaseOwnerReferenceFailed_def PhaseProvisioned_def)
qed

text \<open>
  The claim as stated fails when the last update of the status reporter is rejected: the
  ownership link fails, the pass returns no error, the status reporter is called with
  \<^verbatim>\<open>PROVISIONED\<close> last, and the stored phase stays \<^verbatim>\<open>OWNER_REFERENCE_FAILED\<close>.
\<close>

theorem lost_status_update_counterexample:
  "fst (Reconcile lostUpdateEnv (sampleWorld ''v1.4'') sampleRequest) = (emptyResult, None)
   \<and> statusWrites (events (snd (Reconcile lostUpdateEnv (sampleWorld ''v1.4'') sampleRequest)))
       = [(''PROVISION_STARTED'', ''Target version: v1.4''),
          (''OWNER_REFERENCE_FAILED'',
           ''Failed to retrieve the just created kubevirt-web-ui Deployment object to set owner reference.''),
          (''PROVISIONED'', ''Provision finished.'')]
   \<and> map_option Status (kwebuis (snd (Reconcile lostUpdateEnv (sampleWorld ''v1.4'') sampleRequest))
                           sampleRequest)
       = Some \<lparr>Phase = ''OWNER_REFERENCE_FAILED'',
               Message = ''Failed to retrieve the just created kubevirt-web-ui Deployment object to set owner reference.''\<rparr>"
proof -
  define E where "E = lostUpdateEnv"
  define W where "W = tick GetDeployment (tick GetKWebUI (sampleWorld ''v1.4''))"
  define I where "I = sampleKWebUI ''v1.4''"
  define msg where "msg = ''Failed to retrieve the just created kubevirt-web-ui Deployment object to set owner reference.''"
  have entry: "Reconcile E (sampleWorld ''v1.4'') sampleRequest = freshProvision E W sampleRequest I"
    by (simp add: Reconcile_def clientGetKWebUI_def clientGetDeployment_def E_def lostUpdateEnv_def
                  calmEnv_def sampleWorld_def IsNotFound_def tick_def W_def I_def)
  have v: "Version (Spec I) = ''v1.4''" by (simp add: I_def sampleKWebUI_def)
  have nonempty: "Version (Spec I) \<noteq> []" using v by simp
  have ev: "events W = []" by (simp add: W_def tick_def sampleWorld_def)
  have view0: "apiView W = ([sampleRequest \<mapsto> I], Suc 0, 0, Suc 0)"
    by (simp add: apiView_def W_def I_def tick_def sampleWorld_def)
  define w1 where "w1 = updateStatus E W sampleRequest PhaseFreshProvision
                          (''Target version: '' @ Version (Spec I))"
  have view1: "apiView w1
                 = ([sampleRequest \<mapsto> I\<lparr>Status := \<lparr>Phase = PhaseFreshProvision,
                                                   Message = ''Target version: v1.4''\<rparr>\<rparr>],
                    Suc (Suc 0), Suc 0, Suc 0)"
    using updateStatus_apiView[of E W sampleRequest I PhaseFreshProvision
            "''Target version: '' @ Version (Spec I)"] view0 lostUpdateEnv_faults v
    by (simp add: w1_def apiView_def E_def)
  define w2 where "w2 = snd (runPlaybookWithSetup E w1 (Namespace sampleRequest) I ''provision'')"
  have run: "runPlaybookWithSetup E w1 (Namespace sampleRequest) I ''provision''
               = ((emptyResult, None), w2)"
    using runPlaybookWithSetup_succeeds[OF lostUpdateEnv_reliable, of w1 "Namespace sampleRequest" I
            "''provision''"]
    by (simp add: w2_def E_def prod_eq_iff)
  have view2: "apiView w2 = apiView w1"
    using runPlaybookWithSetup_apiView[OF run] .
  have sw2: "statusWrites (events w2) = [(PhaseFreshProvision, ''Target version: v1.4'')]"
    using runPlaybookWithSetup_statusWrites[OF run] ev v
    by (simp add: w1_def updateStatus_events statusWrites_append)
  define w3 where "w3 = updateStatus E (tick GetDeployment w2) sampleRequest
                          PhaseOwnerReferenceFailed msg"
  have link: "setOwnerReference E w2 sampleRequest I
                = (Some (ApiError ''etcdserver: request timed out''), w3)"
    using setOwnerReference_fault[of E w2 "ApiError ''etcdserver: request timed out''"
            sampleRequest I] view2 view1 lostUpdateEnv_faults
    by (simp add: w3_def msg_def apiView_def E_def)
  have view2t: "apiView (tick GetDeployment w2)
                  = ([sampleRequest \<mapsto> I\<lparr>Status := \<lparr>Phase = PhaseFreshProvision,
                                                    Message = ''Target version: v1.4''\<rparr>\<rparr>],
                     Suc (Suc 0), Suc 0, Suc (Suc 0))"
    using view2 view1 by (simp add: apiView_def tick_def)
  have view3: "apiView w3
                 = ([sampleRequest \<mapsto> I\<lparr>Status := \<lparr>Phase = PhaseOwnerReferenceFailed,
                                                   Message = msg\<rparr>\<rparr>],
                    Suc (Suc (Suc 0)), Suc (Suc 0), Suc (Suc 0))"
    using updateStatus_apiView[of E "tick GetDeployment w2" sampleRequest
            "I\<lparr>Status := \<lparr>Phase = PhaseFreshProvision, Message = ''Target version: v1.4''\<rparr>\<rparr>"
            PhaseOwnerReferenceFailed msg] view2t lostUpdateEnv_faults
    by (simp add: w3_def apiView_def E_def)
  have sw3: "statusWrites (events w3)
               = [(PhaseFreshProvision, ''Target version: v1.4''), (PhaseOwnerReferenceFailed, msg)]"
    using sw2 by (simp add: w3_def updateStatus_events statusWrites_append tick_def)
  define w4 where "w4 = updateStatus E w3 sampleRequest PhaseProvisioned ''Provision finished.''"
  have view4: "kwebuis w4
                 = [sampleRequest \<mapsto> I\<lparr>Status := \<lparr>Phase = PhaseOwnerReferenceFailed,
                                                  Message = msg\<rparr>\<rparr>]"
    using updateStatus_apiView[of E w3 sampleRequest
            "I\<lparr>Status := \<lparr>Phase = PhaseOwnerReferenceFailed, Message = msg\<rparr>\<rparr>"
            PhaseProvisioned "''Provision finished.''"] view3 lostUpdateEnv_faults
    by (simp add: w4_def apiView_def E_def)
  have fp: "freshProvision E W sampleRequest I = ((emptyResult, None), w4)"
    using freshProvision_unfold[OF nonempty run[unfolded w1_def]] link by (simp add: w4_def)
  show ?thesis
    using entry fp sw3 view4
    by (simp add: E_def[symmetric] w4_def updateStatus_events statusWrites_append msg_def
                  PhaseFreshProvision_def PhaseOwnerReferenceFailed_def PhaseProvisioned_def)
qed

text \<open>
  C3: a pass in which the provisioning workflow succeeds and the fetch of the Deployment
  for the ownership link times out.  The pass returns no error, and the phase
  \<^verbatim>\<open>OWNER_REFERENCE_FAILED\<close> is overwritten by \<^verbatim>\<open>PROVISIONED\<close>.
\<close>

theorem link_error_not_returned:
  "fst (Reconcile linkFailEnv (sampleWorld ''v1.4'') sampleRequest) = (emptyResult, None)
   \<and> statusWrites (events (snd (Reconcile linkFailEnv (sampleWorld ''v1.4'') sampleRequest)))
       = [(''PROVISION_STARTED'', ''Target version: v1.4''),
          (''OWNER_REFERENCE_FAILED'',
           ''Failed to retrieve the just created kubevirt-web-ui Deployment object to set owner reference.''),
          (''PROVISIONED'', ''Provision finished.'')]
   \<and> map_option Status (kwebuis (snd (Reconcile linkFailEnv (sampleWorld ''v1.4'') sampleRequest))
                           sampleRequest)
       = Some \<lparr>Phase = ''PROVISIONED'', Message = ''Provision finished.''\<rparr>"
proof -
  define W where "W = tick GetDeployment (tick GetKWebUI (sampleWorld ''v1.4''))"
  define I where "I = sampleKWebUI ''v1.4''"
  define msg where "msg = ''Failed to retrieve the just created kubevirt-web-ui Deployment object to set owner reference.''"
  have entry: "Reconcile linkFailEnv (sampleWorld ''v1.4'') sampleRequest
                 = freshProvision linkFailEnv W sampleRequest I"
    by (simp add: Reconcile_def clientGetKWebUI_def clientGetDeployment_def linkFailEnv_def
                  calmEnv_def sampleWorld_def IsNotFound_def tick_def W_def I_def)
  have c: "0 < calls W GetDeployment" by (simp add: W_def tick_def)
  have k: "kwebuis W sampleRequest = Some I" by (simp add: W_def I_def tick_def sampleWorld_def)
  have v: "Version (Spec I) = ''v1.4''" by (simp add: I_def sampleKWebUI_def)
  have ev: "events W = []" by (simp add: W_def tick_def sampleWorld_def)
  obtain w2 where
    run: "runPlaybookWithSetup linkFailEnv
            (updateStatus linkFailEnv W sampleRequest PhaseFreshProvision
               (''Target version: '' @ Version (Spec I)))
            (Namespace sampleRequest) I ''provision'' = ((emptyResult, None), w2)"
    and link: "setOwnerReference linkFailEnv w2 sampleRequest I
                 = (Some (ApiError ''etcdserver: request timed out''),
                    updateStatus linkFailEnv (tick GetDeployment w2) sampleRequest
                      PhaseOwnerReferenceFailed msg)"
    and k2: "kwebuis (tick GetDeployment w2) sampleRequest
               = Some (I\<lparr>Status := \<lparr>Phase = PhaseFreshProvision,
                                      Message = ''Target version: '' @ Version (Spec I)\<rparr>\<rparr>)"
    using linkFailEnv_provision[OF c k] unfolding msg_def by blast
  define w3 where "w3 = updateStatus linkFailEnv (tick GetDeployment w2) sampleRequest
                          PhaseOwnerReferenceFailed msg"
  have nonempty: "Version (Spec I) \<noteq> []" using v by simp
  have fp: "freshProvision linkFailEnv W sampleRequest I
              = ((emptyResult, None),
                 updateStatus linkFailEnv w3 sampleRequest PhaseProvisioned ''Provision finished.'')"
    using freshProvision_unfold[OF nonempty run] link by (simp add: w3_def)
  have sw2: "statusWrites (events w2) = [(PhaseFreshProvision, ''Target version: v1.4'')]"
    using runPlaybookWithSetup_statusWrites[OF run] ev v
    by (simp add: updateStatus_events statusWrites_append)
  have sw3: "statusWrites (events w3)
               = [(PhaseFreshProvision, ''Target version: v1.4''), (PhaseOwnerReferenceFailed, msg)]"
    using sw2 by (simp add: w3_def updateStatus_events statusWrites_append tick_def)
  have k3: "kwebuis w3 sampleRequest
              = Some (I\<lparr>Status := \<lparr>Phase = PhaseOwnerReferenceFailed, Message = msg\<rparr>\<rparr>)"
    unfolding w3_def using updateStatus_reliable[OF linkFailEnv_faults(1,2) k2] by simp
  have k4: "kwebuis (updateStatus linkFailEnv w3 sampleRequest PhaseProvisioned
                       ''Provision finished.'') sampleRequest
              = Some (I\<lparr>Status := \<lparr>Phase = PhaseProvisioned, Message = ''Provision finished.''\<rparr>\<rparr>)"
    using updateStatus_reliable[OF linkFailEnv_faults(1,2) k3] by simp
  show ?thesis
    using entry fp sw3 k4
    by (simp add: updateStatus_events statusWrites_append msg_def PhaseFreshProvision_def
                  PhaseOwnerReferenceFailed_def PhaseProvisioned_def)
qed


section \<open>Ephemeral files\<close>

text \<open>
  C4: a pass on a full disk.  \<^verbatim>\<open>os.Create\<close> succeeds, every write fails, and
  \<^verbatim>\<open>generateInventory\<close> returns the error of its last write before the caller has
  deferred the removal of the inventory file: the credentials file is removed, the
  inventory file is still there when the pass ends.
\<close>

theorem inventory_file_left_behind:
  "fst (runPlaybookWithSetup diskFullEnv (sampleWorld ''v1.4'') ''kubevirt-web-ui''
          (sampleKWebUI ''v1.4'') ''provision'')
     = (emptyResult, Some (PathError ''no space left on device''))
   \<and> events (snd (runPlaybookWithSetup diskFullEnv (sampleWorld ''v1.4'') ''kubevirt-web-ui''
                     (sampleKWebUI ''v1.4'') ''provision''))
       = [EvExec ''oc'' [''login'', ''https://10.0.0.1:443'', ''--certificate-authority=/ca.crt'',
                         ''--token=token''] [''KUBECONFIG=/tmp/config_0102030405''],
          EvExec ''oc'' [''project'', ''kubevirt-web-ui''] [''KUBECONFIG=/tmp/config_0102030405''],
          EvCreate ''/tmp/inventory_0102030405.ini'',
          EvRemove ''/tmp/config_0102030405'']
   \<and> files (snd (runPlaybookWithSetup diskFullEnv (sampleWorld ''v1.4'') ''kubevirt-web-ui''
                    (sampleKWebUI ''v1.4'') ''provision''))
       = [''/tmp/inventory_0102030405.ini'' \<mapsto> []]"
proof -
  define w1 where "w1 = snd (loginClient diskFullEnv (sampleWorld ''v1.4'') ''kubevirt-web-ui'')"
  have l: "loginClient diskFullEnv (sampleWorld ''v1.4'') ''kubevirt-web-ui''
             = (Inr ''/tmp/config_0102030405'', w1)"
    using diskFullEnv_login(1)[of "''v1.4''"] by (simp add: w1_def prod_eq_iff)
  obtain r w2 where g: "generateInventory diskFullEnv w1 (sampleKWebUI ''v1.4'')
                          ''kubevirt-web-ui'' ''provision'' = (r, w2)"
    by force
  from generateInventory_writes_fail[OF diskFullEnv_faults(1,2,3) g]
  have r: "r = Inl (PathError ''no space left on device'')"
    and f2: "files w2 = (files w1)(''/tmp/inventory_0102030405.ini'' \<mapsto> [])"
    and e2: "events w2 = events w1 @ [EvCreate ''/tmp/inventory_0102030405.ini'']"
    by (simp_all add: diskFullEnv_unique InventoryFilePattern_def)
  have whole: "runPlaybookWithSetup diskFullEnv (sampleWorld ''v1.4'') ''kubevirt-web-ui''
                 (sampleKWebUI ''v1.4'') ''provision''
               = ((emptyResult, Some (PathError ''no space left on device'')),
                  removeFile diskFullEnv w2 ''/tmp/config_0102030405'')"
    using l g r by (simp add: runPlaybookWithSetup_def)
  have files_end: "files (removeFile diskFullEnv w2 ''/tmp/config_0102030405'')
                     = [''/tmp/inventory_0102030405.ini'' \<mapsto> []]"
    using removeFile_files[OF diskFullEnv_faults(4), of w2 "''/tmp/config_0102030405''"]
          f2 diskFullEnv_login(3)[of "''v1.4''"]
    by (auto simp: w1_def fun_eq_iff)
  show ?thesis
    using whole files_end e2 diskFullEnv_login(2)[of "''v1.4''"]
    by (simp add: removeFile_events w1_def)
qed

section \<open>The generated inventory\<close>

text \<open>
  C6 (as amended): when \<^verbatim>\<open>generateInventory\<close> returns the path of its file and none
  of its writes has failed, the file holds the lines of the specification, each ended by
  a line break: a text that depends on the resource, the namespace and the action alone.
  Provided furthermore that none of these values contains a line break, the lines of the
  file are exactly those lines: each of \<^verbatim>\<open>registry_url\<close>, \<^verbatim>\<open>registry_namespace\<close>,
  \<^verbatim>\<open>docker_tag\<close> and \<^verbatim>\<open>kubevirt_web_ui_namespace\<close> occurs once, with the value or,
  when the value is empty, the default; \<^verbatim>\<open>preserve_namespace=true\<close> is a line exactly
  when the action is \<^verbatim>\<open>deprovision\<close>; the subdomain and hostname lines occur exactly
  when their fields are not empty.
\<close>

theorem inventory_file_lines:
  assumes "generateInventory e w instance namespace action = (Inr path, w')"
      and "\<forall>k<length (inventoryWrites instance namespace action).
             fault e Write (calls w Write + k) = None"
  shows "\<exists>c. files w' path = Some c
           \<and> c = unlines (specInventoryLines instance namespace action)
           \<and> (CHR ''\<newline>'' \<notin> set action
                \<and> CHR ''\<newline>'' \<notin> set namespace
                \<and> CHR ''\<newline>'' \<notin> set (RegistryUrl (Spec instance))
                \<and> CHR ''\<newline>'' \<notin> set (RegistryNamespace (Spec instance))
                \<and> CHR ''\<newline>'' \<notin> set (Version (Spec instance))
                \<and> CHR ''\<newline>'' \<notin> set (OpenshiftMasterDefaultSubdomain (Spec instance))
                \<and> CHR ''\<newline>'' \<notin> set (PublicMasterHostname (Spec instance))
              \<longrightarrow> SplitLines c = specInventoryLines instance namespace action @ [[]]
                  \<and> filter (prefix ''registry_url='') (SplitLines c)
                      = [''registry_url='' @ (if RegistryUrl (Spec instance) = [] then ''quay.io''
                                              else RegistryUrl (Spec instance))]
                  \<and> filter (prefix ''registry_namespace='') (SplitLines c)
                      = [''registry_namespace=''
                           @ (if RegistryNamespace (Spec instance) = [] then ''kubevirt''
                              else RegistryNamespace (Spec instance))]
                  \<and> filter (prefix ''docker_tag='') (SplitLines c)
                      = [''docker_tag='' @ (if Version (Spec instance) = [] then ''v1.4''
                                            else Version (Spec instance))]
                  \<and> filter (prefix ''kubevirt_web_ui_namespace='') (SplitLines c)
                      = [''kubevirt_web_ui_namespace=''
                           @ (if namespace = [] then ''kubevirt-web-ui'' else namespace)]
                  \<and> (''preserve_namespace=true'' \<in> set (SplitLines c))
                      = (action = ''deprovision'')
                  \<and> filter (prefix ''openshift_master_default_subdomain='') (SplitLines c)
                      = (if OpenshiftMasterDefaultSubdomain (Spec instance) = [] then []
                         else [''openshift_master_default_subdomain=''
                                 @ OpenshiftMasterDefaultSubdomain (Spec instance)])
                  \<and> filter (prefix ''public_master_hostname='') (SplitLines c)
                      = (if PublicMasterHostname (Spec instance) = [] then []
                         else [''public_master_hostname='' @ PublicMasterHostname (Spec instance)]))"
proof -
  have content: "files w' path = Some (unlines (specInventoryLines instance namespace action))"
    using generateInventory_file[OF assms] by (simp add: inventoryContent_unlines)
  have lines: "SplitLines (unlines (specInventoryLines instance namespace action))
                 = specInventoryLines instance namespace action @ [[]]"
    if "CHR ''\<newline>'' \<notin> set action" "CHR ''\<newline>'' \<notin> set namespace"
       "CHR ''\<newline>'' \<notin> set (RegistryUrl (Spec instance))"
       "CHR ''\<newline>'' \<notin> set (RegistryNamespace (Spec instance))"
       "CHR ''\<newline>'' \<notin> set (Version (Spec instance))"
       "CHR ''\<newline>'' \<notin> set (OpenshiftMasterDefaultSubdomain (Spec instance))"
       "CHR ''\<newline>'' \<notin> set (PublicMasterHostname (Spec instance))"
    using SplitLines_unlines[OF specInventoryLines_oneline[OF that]] .
  have rest: "filter (prefix ''registry_url='') (specInventoryLines instance namespace action @ [[]])
                = [''registry_url='' @ (if RegistryUrl (Spec instance) = [] then ''quay.io''
                                        else RegistryUrl (Spec instance))]
       \<and> filter (prefix ''registry_namespace='') (specInventoryLines instance namespace action @ [[]])
           = [''registry_namespace='' @ (if RegistryNamespace (Spec instance) = [] then ''kubevirt''
                                         else RegistryNamespace (Spec instance))]
       \<and> filter (prefix ''docker_tag='') (specInventoryLines instance namespace action @ [[]])
           = [''docker_tag='' @ (if Version (Spec instance) = [] then ''v1.4''
                                 else Version (Spec instance))]
       \<and> filter (prefix ''kubevirt_web_ui_namespace='')
            (specInventoryLines instance namespace action @ [[]])
           = [''kubevirt_web_ui_namespace='' @ (if namespace = [] then ''kubevirt-web-ui''
                                                else namespace)]
       \<and> (''preserve_namespace=true'' \<in> set (specInventoryLines instance namespace action @ [[]]))
           = (action = ''deprovision'')
       \<and> filter (prefix ''openshift_master_default_subdomain='')
            (specInventoryLines instance namespace action @ [[]])
           = (if OpenshiftMasterDefaultSubdomain (Spec instance) = [] then []
              else [''openshift_master_default_subdomain=''
                      @ OpenshiftMasterDefaultSubdomain (Spec instance)])
       \<and> filter (prefix ''public_master_hostname='')
            (specInventoryLines instance namespace action @ [[]])
           = (if PublicMasterHostname (Spec instance) = [] then []
              else [''public_master_hostname='' @ PublicMasterHostname (Spec instance)])"
    by (simp add: specInventoryLines_def)
  show ?thesis
    using content lines rest by simp
qed


theorem inventory_file_lines_witness:
  "fst (generateInventory calmEnv (sampleWorld ''v1.4'')
          \<lparr>Spec = \<lparr>Version = [], RegistryUrl = [], RegistryNamespace = [],
                   OpenshiftMasterDefaultSubdomain = ''apps.example.com'',
                   PublicMasterHostname = []\<rparr>,
           Status = \<lparr>Phase = [], Message = []\<rparr>\<rparr> [] ''deprovision'')
     = Inr ''/tmp/inventory_0102030405.ini''
   \<and> map_option SplitLines
        (files (snd (generateInventory calmEnv (sampleWorld ''v1.4'')
                       \<lparr>Spec = \<lparr>Version = [], RegistryUrl = [], RegistryNamespace = [],
                                OpenshiftMasterDefaultSubdomain = ''apps.example.com'',
                                PublicMasterHostname = []\<rparr>,
                        Status = \<lparr>Phase = [], Message = []\<rparr>\<rparr> [] ''deprovision''))
           ''/tmp/inventory_0102030405.ini'')
     = Some [''[OSEv3:children]'', ''masters'', [], ''[OSEv3:vars]'', ''platform=openshift'',
             ''apb_action=deprovision'', ''registry_url=quay.io'', ''registry_namespace=kubevirt'',
             ''docker_tag=v1.4'', ''kubevirt_web_ui_namespace=kubevirt-web-ui'',
             ''preserve_namespace=true'', ''openshift_master_default_subdomain=apps.example.com'',
             [], ''[masters]'', ''127.0.0.1 ansible_connection=local'', []]"
proof -
  define I where "I = \<lparr>Spec = \<lparr>Version = [], RegistryUrl = [], RegistryNamespace = [],
                               OpenshiftMasterDefaultSubdomain = ''apps.example.com'',
                               PublicMasterHostname = []\<rparr>,
                       Status = \<lparr>Phase = [], Message = []\<rparr>\<rparr>"
  define w' where "w' = snd (generateInventory calmEnv (sampleWorld ''v1.4'') I [] ''deprovision'')"
  have calm: "fault calmEnv k n = None" for k n by (simp add: calmEnv_def)
  have g: "generateInventory calmEnv (sampleWorld ''v1.4'') I [] ''deprovision''
             = (Inr ''/tmp/inventory_0102030405.ini'', w')"
    using generateInventory_text[of calmEnv "sampleWorld ''v1.4''" I "[]" "''deprovision''"]
    by (simp add: calm calmEnv_unique InventoryFilePattern_def w'_def prod_eq_iff)
  have nofault: "\<forall>k<length (inventoryWrites I [] ''deprovision'').
                   fault calmEnv Write (calls (sampleWorld ''v1.4'') Write + k) = None"
    by (simp add: calm)
  have oneline: "CHR ''\<newline>'' \<notin> set ''deprovision''
                   \<and> CHR ''\<newline>'' \<notin> set ([] :: string)
                   \<and> CHR ''\<newline>'' \<notin> set (RegistryUrl (Spec I))
                   \<and> CHR ''\<newline>'' \<notin> set (RegistryNamespace (Spec I))
                   \<and> CHR ''\<newline>'' \<notin> set (Version (Spec I))
                   \<and> CHR ''\<newline>'' \<notin> set (OpenshiftMasterDefaultSubdomain (Spec I))
                   \<and> CHR ''\<newline>'' \<notin> set (PublicMasterHostname (Spec I))"
    by (simp add: I_def)
  from inventory_file_lines[OF g nofault] oneline
  have "\<exists>c. files w' ''/tmp/inventory_0102030405.ini'' = Some c
             \<and> SplitLines c = specInventoryLines I [] ''deprovision'' @ [[]]"
    by blast
  then have "map_option SplitLines (files w' ''/tmp/inventory_0102030405.ini'')
               = Some (specInventoryLines I [] ''deprovision'' @ [[]])"
    by auto
  then show ?thesis
    using g by (simp add: I_def[symmetric] w'_def[symmetric]) (simp add: I_def specInventoryLines_def)
qed

text \<open>
  Without the provisos the claim fails.  A registry URL with a line break puts the line
  \<^verbatim>\<open>preserve_namespace=true\<close> into the inventory file of a provision.  And when the
  write of that line fails during a deprovision, \<^verbatim>\<open>generateInventory\<close> still returns
  the path, of a file without the line: the results of all writes but the last are
  dropped.
\<close>

theorem inventory_file_counterexample:
  "fst (generateInventory calmEnv (sampleWorld ''v1.4'')
          \<lparr>Spec = \<lparr>Version = ''v1.4'', RegistryUrl = ''quay.io\<newline>preserve_namespace=true'',
                   RegistryNamespace = ''kubevirt'',
                   OpenshiftMasterDefaultSubdomain = [], PublicMasterHostname = []\<rparr>,
           Status = \<lparr>Phase = [], Message = []\<rparr>\<rparr> ''kubevirt-web-ui'' ''provision'')
     = Inr ''/tmp/inventory_0102030405.ini''
   \<and> map_option SplitLines
        (files (snd (generateInventory calmEnv (sampleWorld ''v1.4'')
                       \<lparr>Spec = \<lparr>Version = ''v1.4'',
                                RegistryUrl = ''quay.io\<newline>preserve_namespace=true'',
                                RegistryNamespace = ''kubevirt'',
                                OpenshiftMasterDefaultSubdomain = [], PublicMasterHostname = []\<rparr>,
                        Status = \<lparr>Phase = [], Message = []\<rparr>\<rparr> ''kubevirt-web-ui'' ''provision''))
           ''/tmp/inventory_0102030405.ini'')
     = Some [''[OSEv3:children]'', ''masters'', [], ''[OSEv3:vars]'', ''platform=openshift'',
             ''apb_action=provision'', ''registry_url=quay.io'', ''preserve_namespace=true'',
             ''registry_namespace=kubevirt'', ''docker_tag=v1.4'',
             ''kubevirt_web_ui_namespace=kubevirt-web-ui'',
             [], ''[masters]'', ''127.0.0.1 ansible_connection=local'', []]
   \<and> fst (generateInventory droppedWriteEnv (sampleWorld ''v1.4'') (sampleKWebUI ''v1.4'')
            ''kubevirt-web-ui'' ''deprovision'')
     = Inr ''/tmp/inventory_0102030405.ini''
   \<and> map_option SplitLines
        (files (snd (generateInventory droppedWriteEnv (sampleWorld ''v1.4'') (sampleKWebUI ''v1.4'')
                       ''kubevirt-web-ui'' ''deprovision''))
           ''/tmp/inventory_0102030405.ini'')
     = Some [''[OSEv3:children]'', ''masters'', [], ''[OSEv3:vars]'', ''platform=openshift'',
             ''apb_action=deprovision'', ''registry_url=quay.io'', ''registry_namespace=kubevirt'',
             ''docker_tag=v1.4'', ''kubevirt_web_ui_namespace=kubevirt-web-ui'',
             [], ''[masters]'', ''127.0.0.1 ansible_connection=local'', []]"
proof -
  have calm: "fault calmEnv k n = None" for k n by (simp add: calmEnv_def)
  have c0: "calls (sampleWorld ''v1.4'') k = 0" for k by (simp add: sampleWorld_def)
  have injected:
    "writtenText calmEnv 0
       (inventoryWrites
          \<lparr>Spec = \<lparr>Version = ''v1.4'', RegistryUrl = ''quay.io\<newline>preserve_namespace=true'',
                   RegistryNamespace = ''kubevirt'',
                   OpenshiftMasterDefaultSubdomain = [], PublicMasterHostname = []\<rparr>,
           Status = \<lparr>Phase = [], Message = []\<rparr>\<rparr> ''kubevirt-web-ui'' ''provision'')
     = ''[OSEv3:children]\<newline>masters\<newline>\<newline>[OSEv3:vars]\<newline>platform=openshift\<newline>apb_action=provision\<newline>registry_url=quay.io\<newline>preserve_namespace=true\<newline>registry_namespace=kubevirt\<newline>docker_tag=v1.4\<newline>kubevirt_web_ui_namespace=kubevirt-web-ui\<newline>\<newline>[masters]\<newline>''"
    by (simp add: inventoryWrites_def def_def calm)
  have dropped:
    "writtenText droppedWriteEnv 0
       (inventoryWrites (sampleKWebUI ''v1.4'') ''kubevirt-web-ui'' ''deprovision'')
     = ''[OSEv3:children]\<newline>masters\<newline>\<newline>[OSEv3:vars]\<newline>platform=openshift\<newline>apb_action=deprovision\<newline>registry_url=quay.io\<newline>registry_namespace=kubevirt\<newline>docker_tag=v1.4\<newline>kubevirt_web_ui_namespace=kubevirt-web-ui\<newline>\<newline>[masters]\<newline>''"
    by (simp add: inventoryWrites_def def_def sampleKWebUI_def droppedWriteEnv_def calmEnv_def)
  have len: "length (inventoryWrites (sampleKWebUI ''v1.4'') ''kubevirt-web-ui'' ''deprovision'') = 11"
    by (simp add: inventoryWrites_def sampleKWebUI_def)
  have last_ok: "fault droppedWriteEnv Write 11 = None" "fault droppedWriteEnv Create n = None" for n
    by (simp_all add: droppedWriteEnv_def calmEnv_def)
  show ?thesis
    using generateInventory_text[of calmEnv "sampleWorld ''v1.4''"
            "\<lparr>Spec = \<lparr>Version = ''v1.4'', RegistryUrl = ''quay.io\<newline>preserve_namespace=true'',
                     RegistryNamespace = ''kubevirt'',
                     OpenshiftMasterDefaultSubdomain = [], PublicMasterHostname = []\<rparr>,
              Status = \<lparr>Phase = [], Message = []\<rparr>\<rparr>" "''kubevirt-web-ui''" "''provision''"]
          generateInventory_text[of droppedWriteEnv "sampleWorld ''v1.4''" "sampleKWebUI ''v1.4''"
            "''kubevirt-web-ui''" "''deprovision''"]
    by (simp add: calm c0 injected dropped len last_ok calmEnv_unique droppedWriteEnv_unique
                  InventoryFilePattern_def inventoryLastWrite_def)
qed


section \<open>The status reporter\<close>

text \<open>
  C8: every call of \<^verbatim>\<open>updateStatus\<close> fetches the resource once and changes neither
  the Deployments nor the files.  If the fetch fails nothing is written and no update is
  issued.  If it succeeds, one update is issued, of the resource just fetched with its
  phase and message replaced, and the store holds that resource when the update goes
  through and is unchanged otherwise.  The function has no result, and a pass returns the
  same result, and leaves the same Deployments, files and calls, whatever the outcomes of
  the fetches and updates of the status reporter are.
\<close>

theorem updateStatus_best_effort:
  "calls (updateStatus e w request phase msg) GetKWebUI = Suc (calls w GetKWebUI)
   \<and> deployments (updateStatus e w request phase msg) = deployments w
   \<and> files (updateStatus e w request phase msg) = files w
   \<and> (fault e GetKWebUI (calls w GetKWebUI) \<noteq> None \<or> kwebuis w request = None
        \<longrightarrow> kwebuis (updateStatus e w request phase msg) = kwebuis w
            \<and> calls (updateStatus e w request phase msg) Update = calls w Update)
   \<and> (fault e GetKWebUI (calls w GetKWebUI) = None \<and> kwebuis w request = Some stored
        \<longrightarrow> calls (updateStatus e w request phase msg) Update = Suc (calls w Update)
            \<and> kwebuis (updateStatus e w request phase msg)
                = (if fault e Update (calls w Update) = None
                   then (kwebuis w)(request \<mapsto>
                          stored\<lparr>Status := (Status stored)\<lparr>Phase := phase, Message := msg\<rparr>\<rparr>)
                   else kwebuis w))
   \<and> fst (Reconcile (withStatusFaults g u (calls w GetKWebUI) e) w request)
       = fst (Reconcile e w request)
   \<and> deployments (snd (Reconcile (withStatusFaults g u (calls w GetKWebUI) e) w request))
       = deployments (snd (Reconcile e w request))
   \<and> files (snd (Reconcile (withStatusFaults g u (calls w GetKWebUI) e) w request))
       = files (snd (Reconcile e w request))
   \<and> events (snd (Reconcile (withStatusFaults g u (calls w GetKWebUI) e) w request))
       = events (snd (Reconcile e w request))"
proof -
  have fetch_failed:
    "fault e GetKWebUI (calls w GetKWebUI) \<noteq> None \<or> kwebuis w request = None
       \<longrightarrow> kwebuis (updateStatus e w request phase msg) = kwebuis w
           \<and> calls (updateStatus e w request phase msg) Update = calls w Update"
    by (auto simp: updateStatus_def clientGetKWebUI_def tick_def record_event_def
             split: option.splits)
  have fetched:
    "fault e GetKWebUI (calls w GetKWebUI) = None \<and> kwebuis w request = Some stored
       \<longrightarrow> calls (updateStatus e w request phase msg) Update = Suc (calls w Update)
           \<and> kwebuis (updateStatus e w request phase msg)
               = (if fault e Update (calls w Update) = None
                  then (kwebuis w)(request \<mapsto>
                         stored\<lparr>Status := (Status stored)\<lparr>Phase := phase, Message := msg\<rparr>\<rparr>)
                  else kwebuis w)"
    by (auto simp: updateStatus_def clientGetKWebUI_def clientUpdate_def tick_def record_event_def
             split: option.splits)
  have pass:
    "fst (Reconcile (withStatusFaults g u (calls w GetKWebUI) e) w request)
       = fst (Reconcile e w request)
     \<and> sameOutside (snd (Reconcile e w request))
          (snd (Reconcile (withStatusFaults g u (calls w GetKWebUI) e) w request))"
    by (rule Reconcile_rel)
  show ?thesis
    using fetch_failed fetched pass
    by (simp add: updateStatus_calls_GetKWebUI updateStatus_deployments updateStatus_files
                  sameOutside_def)
qed


theorem updateStatus_best_effort_witness:
  "kwebuis (updateStatus calmEnv (sampleWorld ''v1.4'') sampleRequest ''PROVISIONED''
              ''Provision finished.'')
     = [sampleRequest \<mapsto> (sampleKWebUI ''v1.4'')
                             \<lparr>Status := \<lparr>Phase = ''PROVISIONED'',
                                          Message = ''Provision finished.''\<rparr>\<rparr>]
   \<and> kwebuis (updateStatus calmEnv (sampleWorld ''v1.4'') consoleName ''PROVISIONED''
                ''Provision finished.'')
       = [sampleRequest \<mapsto> sampleKWebUI ''v1.4'']
   \<and> fst (Reconcile (withStatusFaults (\<lambda>n. Some (ApiError ''request timed out''))
                                      (\<lambda>n. Some (ApiError ''conflict'')) 0 calmEnv)
            (sampleWorld ''v1.4'') sampleRequest)
       = (emptyResult, None)"
proof -
  have c0: "calls (sampleWorld ''v1.4'') GetKWebUI = 0" by (simp add: sampleWorld_def)
  have stored: "kwebuis (sampleWorld ''v1.4'') sampleRequest = Some (sampleKWebUI ''v1.4'')"
    by (simp add: sampleWorld_def)
  have absent: "kwebuis (sampleWorld ''v1.4'') consoleName = None"
    by (simp add: sampleWorld_def sampleRequest_def consoleName_def)
  have calm: "fault calmEnv GetKWebUI (calls (sampleWorld ''v1.4'') GetKWebUI) = None"
             "fault calmEnv Update (calls (sampleWorld ''v1.4'') Update) = None"
    by (simp_all add: calmEnv_def)
  show ?thesis
    using updateStatus_best_effort
            [of calmEnv "sampleWorld ''v1.4''" sampleRequest "''PROVISIONED''"
                "''Provision finished.''" "sampleKWebUI ''v1.4''"
                "\<lambda>n. Some (ApiError ''request timed out'')" "\<lambda>n. Some (ApiError ''conflict'')"]
          updateStatus_best_effort
            [of calmEnv "sampleWorld ''v1.4''" consoleName "''PROVISIONED''"
                "''Provision finished.''" "sampleKWebUI ''v1.4''"
                "\<lambda>n. None" "\<lambda>n. None"]
          c0 stored absent calm calmEnv_fresh_pass
    by (simp add: sampleWorld_def sampleKWebUI_def)
qed

section \<open>The ownership link\<close>

text \<open>
  C9: \<^verbatim>\<open>setOwnerReference\<close> fetches the Deployment and computes the controller reference
  on its own copy; it issues no update, so the stored Deployments, owner references
  included, are the same after every call as before it.
\<close>

theorem setOwnerReference_stores_nothing:
  "deployments (snd (setOwnerReference e w request instance)) = deployments w"
  by (simp add: setOwnerReference_def clientGetDeployment_def tick_def updateStatus_deployments
           split: option.splits prod.splits)

end
